theory Spec2Isabelle
  imports Complex_Main "HOL-Library.Word"
begin

section \<open>JavaScript values used by the domain layer\<close>

text \<open>
  A JavaScript string is a sequence of UTF-16 code units; \<open>length\<close>, \<open>trim\<close> and a
  regular expression without the \<open>u\<close> flag all work on code units. String literals of
  the source are written \<open>js ''...''\<close>.
\<close>

type_synonym jschar = "16 word"
type_synonym jsstring = "jschar list"

definition js :: "string \<Rightarrow> jsstring" where
  "js s = map of_char s"

text \<open>
  The code units that \<open>String.prototype.trim\<close> strips and that \<open>\s\<close> matches:
  WhiteSpace and LineTerminator of ECMAScript (TAB, LF, VT, FF, CR, SP, NBSP, the
  Unicode space separators, LS, PS and the byte order mark).
\<close>

definition isWhiteSpace :: "jschar \<Rightarrow> bool" where
  "isWhiteSpace c \<longleftrightarrow>
     c = 0x09 \<or> c = 0x0A \<or> c = 0x0B \<or> c = 0x0C \<or> c = 0x0D \<or> c = 0x20 \<or> c = 0xA0 \<or>
     c = 0x1680 \<or> (0x2000 \<le> c \<and> c \<le> 0x200A) \<or> c = 0x2028 \<or> c = 0x2029 \<or>
     c = 0x202F \<or> c = 0x205F \<or> c = 0x3000 \<or> c = 0xFEFF"

definition trim :: "jsstring \<Rightarrow> jsstring" where
  "trim s = rev (dropWhile isWhiteSpace (rev (dropWhile isWhiteSpace s)))"

text \<open>The character classes of the two regular expressions of the source.\<close>

definition notSpaceOrAt :: "jschar \<Rightarrow> bool" where
  "notSpaceOrAt c \<longleftrightarrow> \<not> isWhiteSpace c \<and> c \<noteq> 0x40"

definition isDot :: "jschar \<Rightarrow> bool" where
  "isDot c \<longleftrightarrow> c = 0x2E"

definition isAt :: "jschar \<Rightarrow> bool" where
  "isAt c \<longleftrightarrow> c = 0x40"

definition letterOrSpace :: "jschar \<Rightarrow> bool" where
  "letterOrSpace c \<longleftrightarrow>
     (0x61 \<le> c \<and> c \<le> 0x7A) \<or> (0x41 \<le> c \<and> c \<le> 0x5A) \<or> isWhiteSpace c"

text \<open>
  Regular expressions, matched by derivatives. Both patterns of the source are anchored
  with \<open>^\<close> and \<open>$\<close> and carry no flag, so \<open>RegExp.prototype.test\<close> holds exactly when
  the whole string matches the body of the pattern.
\<close>

datatype regex =
    Nothing
  | Epsilon
  | Class "jschar \<Rightarrow> bool"
  | Seq regex regex
  | Alt regex regex
  | Star regex

definition Plus :: "regex \<Rightarrow> regex" where
  "Plus r = Seq r (Star r)"

fun nullable :: "regex \<Rightarrow> bool" where
  "nullable Nothing = False"
| "nullable Epsilon = True"
| "nullable (Class p) = False"
| "nullable (Seq r s) = (nullable r \<and> nullable s)"
| "nullable (Alt r s) = (nullable r \<or> nullable s)"
| "nullable (Star r) = True"

fun deriv :: "jschar \<Rightarrow> regex \<Rightarrow> regex" where
  "deriv c Nothing = Nothing"
| "deriv c Epsilon = Nothing"
| "deriv c (Class p) = (if p c then Epsilon else Nothing)"
| "deriv c (Seq r s) =
     (if nullable r then Alt (Seq (deriv c r) s) (deriv c s) else Seq (deriv c r) s)"
| "deriv c (Alt r s) = Alt (deriv c r) (deriv c s)"
| "deriv c (Star r) = Seq (deriv c r) (Star r)"

fun test :: "regex \<Rightarrow> jsstring \<Rightarrow> bool" where
  "test r [] = nullable r"
| "test r (c # cs) = test (deriv c r) cs"

text \<open>\<^verbatim>\<open>/^[^\s@]+@[^\s@]+\.[^\s@]+$/\<close>\<close>

definition emailRegex :: regex where
  "emailRegex =
     Seq (Plus (Class notSpaceOrAt))
      (Seq (Class isAt)
        (Seq (Plus (Class notSpaceOrAt))
          (Seq (Class isDot) (Plus (Class notSpaceOrAt)))))"

text \<open>\<^verbatim>\<open>/^[a-zA-Z\s]+$/\<close>\<close>

definition nameRegex :: regex where
  "nameRegex = Plus (Class letterOrSpace)"

text \<open>
  A JavaScript number, as far as the use cases look at it: they only test truthiness,
  compare with constants and take \<open>Math.min\<close>, all of which are exact. Every double is
  NaN, an infinity or a rational, and both zeros are the number 0.
\<close>

datatype number = NaN | PosInfinity | NegInfinity | Num rat

definition truthy :: "number \<Rightarrow> bool" where
  "truthy n \<longleftrightarrow> n \<noteq> NaN \<and> n \<noteq> Num 0"

fun numLess :: "number \<Rightarrow> number \<Rightarrow> bool" where
  "numLess NaN b = False"
| "numLess a NaN = False"
| "numLess PosInfinity b = False"
| "numLess NegInfinity b = (b \<noteq> NegInfinity)"
| "numLess (Num x) PosInfinity = True"
| "numLess (Num x) NegInfinity = False"
| "numLess (Num x) (Num y) = (x < y)"

definition numGreater :: "number \<Rightarrow> number \<Rightarrow> bool" where
  "numGreater a b = numLess b a"

definition Math_min :: "number \<Rightarrow> number \<Rightarrow> number" where
  "Math_min a b =
     (if a = NaN \<or> b = NaN then NaN else if numLess b a then b else a)"

section \<open>Dates and the ISO 8601 transfer encoding\<close>

text \<open>
  A \<open>Date\<close> holds a time value: an integral number of milliseconds since the epoch,
  at most \<open>8.64e15\<close> in absolute value, or NaN (an invalid date).
\<close>

datatype Date = InvalidDate | TimeValue int

definition maxTime :: int where
  "maxTime = 8640000000000000"

definition validDate :: "Date \<Rightarrow> bool" where
  "validDate d = (case d of InvalidDate \<Rightarrow> False | TimeValue t \<Rightarrow> \<bar>t\<bar> \<le> maxTime)"

definition TimeClip :: "int \<Rightarrow> Date" where
  "TimeClip t = (if \<bar>t\<bar> > maxTime then InvalidDate else TimeValue t)"

text \<open>
  The day and year arithmetic of ECMAScript (Day, DayFromYear, YearFromTime,
  MonthFromTime, DateFromTime, MakeDay, MakeTime, MakeDate). \<open>YearFromDay d\<close> computes
  the largest year whose first day is not after day \<open>d\<close>: an estimate from the mean
  length of a Gregorian year, corrected by at most one.
\<close>

definition msPerDay :: int where
  "msPerDay = 86400000"

definition Day :: "int \<Rightarrow> int" where
  "Day t = t div msPerDay"

definition TimeWithinDay :: "int \<Rightarrow> int" where
  "TimeWithinDay t = t mod msPerDay"

definition DaysInYear :: "int \<Rightarrow> int" where
  "DaysInYear y =
     (if y mod 4 \<noteq> 0 then 365 else if y mod 100 \<noteq> 0 then 366
      else if y mod 400 \<noteq> 0 then 365 else 366)"

definition DayFromYear :: "int \<Rightarrow> int" where
  "DayFromYear y =
     365 * (y - 1970) + (y - 1969) div 4 - (y - 1901) div 100 + (y - 1601) div 400"

definition YearFromDay :: "int \<Rightarrow> int" where
  "YearFromDay d =
     (let y = 1970 + (400 * d) div 146097 in
      if d < DayFromYear y then y - 1
      else if DayFromYear (y + 1) \<le> d then y + 1
      else y)"

definition YearFromTime :: "int \<Rightarrow> int" where
  "YearFromTime t = YearFromDay (Day t)"

definition leapDays :: "int \<Rightarrow> int" where
  "leapDays y = (if DaysInYear y = 366 then 1 else 0)"

definition InLeapYear :: "int \<Rightarrow> int" where
  "InLeapYear t = leapDays (YearFromTime t)"

definition DayWithinYear :: "int \<Rightarrow> int" where
  "DayWithinYear t = Day t - DayFromYear (YearFromTime t)"

definition MonthFromTime :: "int \<Rightarrow> int" where
  "MonthFromTime t =
     (let d = DayWithinYear t; l = InLeapYear t in
      if d < 31 then 0 else if d < 59 + l then 1 else if d < 90 + l then 2
      else if d < 120 + l then 3 else if d < 151 + l then 4 else if d < 181 + l then 5
      else if d < 212 + l then 6 else if d < 243 + l then 7 else if d < 273 + l then 8
      else if d < 304 + l then 9 else if d < 334 + l then 10 else 11)"

definition DateFromTime :: "int \<Rightarrow> int" where
  "DateFromTime t =
     (let d = DayWithinYear t; l = InLeapYear t; m = MonthFromTime t in
      if m = 0 then d + 1 else if m = 1 then d - 30 else if m = 2 then d - 58 - l
      else if m = 3 then d - 89 - l else if m = 4 then d - 119 - l
      else if m = 5 then d - 150 - l else if m = 6 then d - 180 - l
      else if m = 7 then d - 211 - l else if m = 8 then d - 242 - l
      else if m = 9 then d - 272 - l else if m = 10 then d - 303 - l
      else d - 333 - l)"

definition HourFromTime :: "int \<Rightarrow> int" where
  "HourFromTime t = (t div 3600000) mod 24"

definition MinFromTime :: "int \<Rightarrow> int" where
  "MinFromTime t = (t div 60000) mod 60"

definition SecFromTime :: "int \<Rightarrow> int" where
  "SecFromTime t = (t div 1000) mod 60"

definition msFromTime :: "int \<Rightarrow> int" where
  "msFromTime t = t mod 1000"

definition daysBeforeMonth :: "int \<Rightarrow> int \<Rightarrow> int" where
  "daysBeforeMonth m l =
     (if m = 0 then 0 else if m = 1 then 31 else if m = 2 then 59 + l
      else if m = 3 then 90 + l else if m = 4 then 120 + l else if m = 5 then 151 + l
      else if m = 6 then 181 + l else if m = 7 then 212 + l else if m = 8 then 243 + l
      else if m = 9 then 273 + l else if m = 10 then 304 + l else 334 + l)"

definition DaysInMonth :: "int \<Rightarrow> int \<Rightarrow> int" where
  "DaysInMonth m l =
     (if m = 1 then 28 + l
      else if m = 3 \<or> m = 5 \<or> m = 8 \<or> m = 10 then 30 else 31)"

text \<open>\<open>MakeDay\<close> for a month in \<open>0..11\<close>, the only case the parser below reaches.\<close>

definition MakeDay :: "int \<Rightarrow> int \<Rightarrow> int \<Rightarrow> int" where
  "MakeDay y m dt = DayFromYear y + daysBeforeMonth m (leapDays y) + dt - 1"

definition MakeTime :: "int \<Rightarrow> int \<Rightarrow> int \<Rightarrow> int \<Rightarrow> int" where
  "MakeTime h m s ms = h * 3600000 + m * 60000 + s * 1000 + ms"

definition MakeDate :: "int \<Rightarrow> int \<Rightarrow> int" where
  "MakeDate day time = day * msPerDay + time"

text \<open>Decimal fields: \<open>pad k n\<close> writes the last \<open>k\<close> decimal digits of \<open>n\<close>.\<close>

definition digit :: "nat \<Rightarrow> jschar" where
  "digit d = of_nat (48 + d)"

fun pad :: "nat \<Rightarrow> nat \<Rightarrow> jsstring" where
  "pad 0 n = []"
| "pad (Suc k) n = pad k (n div 10) @ [digit (n mod 10)]"

definition yearString :: "int \<Rightarrow> jsstring" where
  "yearString y =
     (if 0 \<le> y \<and> y \<le> 9999 then pad 4 (nat y)
      else if y < 0 then 0x2D # pad 6 (nat (- y))
      else 0x2B # pad 6 (nat y))"

text \<open>
  \<open>Date.prototype.toISOString\<close> on a time value:
  \<^verbatim>\<open>YYYY-MM-DDTHH:mm:ss.sssZ\<close>, the year as \<^verbatim>\<open>+YYYYYY\<close> or \<^verbatim>\<open>-YYYYYY\<close> outside 0..9999.
\<close>

definition isoString :: "int \<Rightarrow> jsstring" where
  "isoString t =
     yearString (YearFromTime t) @ [0x2D] @ pad 2 (nat (MonthFromTime t + 1)) @ [0x2D] @
     pad 2 (nat (DateFromTime t)) @ [0x54] @ pad 2 (nat (HourFromTime t)) @ [0x3A] @
     pad 2 (nat (MinFromTime t)) @ [0x3A] @ pad 2 (nat (SecFromTime t)) @ [0x2E] @
     pad 3 (nat (msFromTime t)) @ [0x5A]"

text \<open>The parser of the same format, as \<open>Date.parse\<close> reads it.\<close>

definition digitValue :: "jschar \<Rightarrow> nat option" where
  "digitValue c = (if 48 \<le> unat c \<and> unat c \<le> 57 then Some (unat c - 48) else None)"

fun digitsValue :: "jsstring \<Rightarrow> nat \<Rightarrow> nat option" where
  "digitsValue [] acc = Some acc"
| "digitsValue (c # cs) acc =
     (case digitValue c of None \<Rightarrow> None | Some d \<Rightarrow> digitsValue cs (10 * acc + d))"

definition takeDigits :: "nat \<Rightarrow> jsstring \<Rightarrow> (nat \<times> jsstring) option" where
  "takeDigits k s =
     (if length s < k then None
      else case digitsValue (take k s) 0 of
             None \<Rightarrow> None
           | Some n \<Rightarrow> Some (n, drop k s))"

definition expect :: "jschar \<Rightarrow> jsstring \<Rightarrow> jsstring option" where
  "expect c s = (case s of [] \<Rightarrow> None | x # r \<Rightarrow> if x = c then Some r else None)"

definition parseYear :: "jsstring \<Rightarrow> (int \<times> jsstring) option" where
  "parseYear s =
     (case s of
        [] \<Rightarrow> None
      | c # r \<Rightarrow>
          if c = 0x2B then
            (case takeDigits 6 r of None \<Rightarrow> None | Some (n, r') \<Rightarrow> Some (int n, r'))
          else if c = 0x2D then
            (case takeDigits 6 r of
               None \<Rightarrow> None
             | Some (n, r') \<Rightarrow> if n = 0 then None else Some (- int n, r'))
          else
            (case takeDigits 4 s of None \<Rightarrow> None | Some (n, r') \<Rightarrow> Some (int n, r')))"

definition legalFields :: "int \<Rightarrow> nat \<Rightarrow> nat \<Rightarrow> nat \<Rightarrow> nat \<Rightarrow> nat \<Rightarrow> bool" where
  "legalFields y mo d h mi se \<longleftrightarrow>
     1 \<le> mo \<and> mo \<le> 12 \<and> 1 \<le> d \<and> int d \<le> DaysInMonth (int mo - 1) (leapDays y) \<and>
     h \<le> 23 \<and> mi \<le> 59 \<and> se \<le> 59"

definition parseDateTimeString :: "jsstring \<Rightarrow> int option" where
  "parseDateTimeString s =
     Option.bind (parseYear s) (\<lambda>(y, r).
     Option.bind (expect 0x2D r) (\<lambda>r.
     Option.bind (takeDigits 2 r) (\<lambda>(mo, r).
     Option.bind (expect 0x2D r) (\<lambda>r.
     Option.bind (takeDigits 2 r) (\<lambda>(d, r).
     Option.bind (expect 0x54 r) (\<lambda>r.
     Option.bind (takeDigits 2 r) (\<lambda>(h, r).
     Option.bind (expect 0x3A r) (\<lambda>r.
     Option.bind (takeDigits 2 r) (\<lambda>(mi, r).
     Option.bind (expect 0x3A r) (\<lambda>r.
     Option.bind (takeDigits 2 r) (\<lambda>(se, r).
     Option.bind (expect 0x2E r) (\<lambda>r.
     Option.bind (takeDigits 3 r) (\<lambda>(ms, r).
     Option.bind (expect 0x5A r) (\<lambda>r.
       if r = [] \<and> legalFields y mo d h mi se
       then Some (MakeDate (MakeDay y (int mo - 1) (int d))
                    (MakeTime (int h) (int mi) (int se) (int ms)))
       else None))))))))))))))"

text \<open>
  \<open>new Date(string)\<close>. A string in the format above is read as specified (and
  clipped to the range of time values). Every other string, that is the shorter ISO
  forms, ISO strings with an illegal field and whatever formats the engine accepts
  besides, is left to the parameter \<open>other\<close>.
\<close>

definition Date_parse :: "(jsstring \<Rightarrow> Date) \<Rightarrow> jsstring \<Rightarrow> Date" where
  "Date_parse other s =
     (case parseDateTimeString s of Some t \<Rightarrow> TimeClip t | None \<Rightarrow> other s)"

section \<open>Errors\<close>

text \<open>
  The classes of \<^verbatim>\<open>domain-errors.ts\<close>, one constructor per class with the arguments of
  its constructor, and the two readonly fields every class fixes.
\<close>

datatype DomainError =
    UserNotFoundError jsstring
  | UserAlreadyExistsError jsstring
  | InvalidUserDataError jsstring "jsstring list option"
  | UserInactiveError jsstring
  | ValidationError jsstring "jsstring list"
  | BusinessRuleViolationError jsstring jsstring
  | RepositoryError jsstring jsstring
  | NetworkError jsstring

datatype DomainErrorKind =
    UserNotFound
  | UserAlreadyExists
  | InvalidUserData
  | UserInactive
  | Validation
  | BusinessRuleViolation
  | Repository
  | Network

fun kindOf :: "DomainError \<Rightarrow> DomainErrorKind" where
  "kindOf (UserNotFoundError userId) = UserNotFound"
| "kindOf (UserAlreadyExistsError email) = UserAlreadyExists"
| "kindOf (InvalidUserDataError message validationErrors) = InvalidUserData"
| "kindOf (UserInactiveError userId) = UserInactive"
| "kindOf (ValidationError message validationErrors) = Validation"
| "kindOf (BusinessRuleViolationError message rule) = BusinessRuleViolation"
| "kindOf (RepositoryError message operation) = Repository"
| "kindOf (NetworkError message) = Network"

fun code :: "DomainErrorKind \<Rightarrow> jsstring" where
  "code UserNotFound = js ''USER_NOT_FOUND''"
| "code UserAlreadyExists = js ''USER_ALREADY_EXISTS''"
| "code InvalidUserData = js ''INVALID_USER_DATA''"
| "code UserInactive = js ''USER_INACTIVE''"
| "code Validation = js ''VALIDATION_ERROR''"
| "code BusinessRuleViolation = js ''BUSINESS_RULE_VIOLATION''"
| "code Repository = js ''REPOSITORY_ERROR''"
| "code Network = js ''NETWORK_ERROR''"

fun userMessage :: "DomainErrorKind \<Rightarrow> jsstring" where
  "userMessage UserNotFound = js ''User not found''"
| "userMessage UserAlreadyExists = js ''A user with this email already exists''"
| "userMessage InvalidUserData = js ''Invalid user data provided''"
| "userMessage UserInactive = js ''Cannot perform operation on inactive user''"
| "userMessage Validation = js ''Validation failed''"
| "userMessage BusinessRuleViolation = js ''Business rule violation''"
| "userMessage Repository = js ''Data access error occurred''"
| "userMessage Network = js ''Network connection error''"

text \<open>
  What can be thrown or delivered as an error notification: a plain \<open>Error\<close> with its
  message (\<open>new Error(message)\<close>, which has neither code nor user message), the
  \<open>RangeError\<close> of the runtime, or one of the domain errors.
\<close>

datatype error =
    Error jsstring
  | RangeError jsstring
  | Domain DomainError

fun domainKind :: "error \<Rightarrow> DomainErrorKind option" where
  "domainKind (Error message) = None"
| "domainKind (RangeError message) = None"
| "domainKind (Domain e) = Some (kindOf e)"

section \<open>The User entity\<close>

record User =
  userId :: jsstring
  email :: jsstring
  firstName :: jsstring
  lastName :: jsstring
  createdAt :: Date
  updatedAt :: Date
  isActive :: bool

definition validateEmail :: "jsstring \<Rightarrow> error option" where
  "validateEmail e =
     (if \<not> test emailRegex e then Some (Error (js ''Invalid email format'')) else None)"

definition validateName :: "jsstring \<Rightarrow> string \<Rightarrow> error option" where
  "validateName name fieldName =
     (if name = [] \<or> length (trim name) < 2
      then Some (Error (js (fieldName @ '' must be at least 2 characters long'')))
      else None)"

text \<open>
  The constructor. Its last parameter has the default value \<open>true\<close>, which
  JavaScript takes when the argument is omitted or \<open>undefined\<close> (\<open>None\<close> here). The
  three checks run in the order of the source and the first failure is thrown.
\<close>

definition new_User ::
  "jsstring \<Rightarrow> jsstring \<Rightarrow> jsstring \<Rightarrow> jsstring \<Rightarrow> Date \<Rightarrow> Date \<Rightarrow> bool option \<Rightarrow> error + User"
where
  "new_User i e f l c u a =
     (case validateEmail e of
        Some err \<Rightarrow> Inl err
      | None \<Rightarrow>
         (case validateName f ''First name'' of
            Some err \<Rightarrow> Inl err
          | None \<Rightarrow>
             (case validateName l ''Last name'' of
                Some err \<Rightarrow> Inl err
              | None \<Rightarrow>
                  Inr \<lparr> userId = i, email = e, firstName = f, lastName = l,
                        createdAt = c, updatedAt = u,
                        isActive = (case a of None \<Rightarrow> True | Some b \<Rightarrow> b) \<rparr>)))"

definition fullName :: "User \<Rightarrow> jsstring" where
  "fullName u = firstName u @ js '' '' @ lastName u"

text \<open>The derived copies; \<open>now\<close> is the value of \<open>new Date()\<close> at the call.\<close>

definition updateInfo :: "Date \<Rightarrow> User \<Rightarrow> jsstring \<Rightarrow> jsstring \<Rightarrow> error + User" where
  "updateInfo now u f l =
     new_User (userId u) (email u) f l (createdAt u) now (Some (isActive u))"

definition deactivate :: "Date \<Rightarrow> User \<Rightarrow> error + User" where
  "deactivate now u =
     new_User (userId u) (email u) (firstName u) (lastName u) (createdAt u) now (Some False)"

definition activate :: "Date \<Rightarrow> User \<Rightarrow> error + User" where
  "activate now u =
     new_User (userId u) (email u) (firstName u) (lastName u) (createdAt u) now (Some True)"

text \<open>\<open>toISOString\<close> throws a \<open>RangeError\<close> on an invalid date.\<close>

definition toISOString :: "Date \<Rightarrow> error + jsstring" where
  "toISOString d =
     (case d of
        InvalidDate \<Rightarrow> Inl (RangeError (js ''Invalid time value''))
      | TimeValue t \<Rightarrow> Inr (isoString t))"

text \<open>
  The plain object of \<open>toJSON\<close> and \<open>fromJSON\<close>. The parameter of \<open>fromJSON\<close> has the
  type \<open>any\<close>; the model takes the four text fields and the two timestamps as
  strings, as \<open>toJSON\<close> writes them, and lets \<open>fullName\<close> and \<open>isActive\<close> be absent.
\<close>

record UserJSON =
  json_id :: jsstring
  json_email :: jsstring
  json_firstName :: jsstring
  json_lastName :: jsstring
  json_fullName :: "jsstring option"
  json_createdAt :: jsstring
  json_updatedAt :: jsstring
  json_isActive :: "bool option"

definition toJSON :: "User \<Rightarrow> error + UserJSON" where
  "toJSON u =
     (case toISOString (createdAt u) of
        Inl err \<Rightarrow> Inl err
      | Inr c \<Rightarrow>
         (case toISOString (updatedAt u) of
            Inl err \<Rightarrow> Inl err
          | Inr m \<Rightarrow>
              Inr \<lparr> json_id = userId u, json_email = email u,
                    json_firstName = firstName u, json_lastName = lastName u,
                    json_fullName = Some (fullName u),
                    json_createdAt = c, json_updatedAt = m,
                    json_isActive = Some (isActive u) \<rparr>))"

definition fromJSON :: "(jsstring \<Rightarrow> Date) \<Rightarrow> UserJSON \<Rightarrow> error + User" where
  "fromJSON other d =
     new_User (json_id d) (json_email d) (json_firstName d) (json_lastName d)
       (Date_parse other (json_createdAt d)) (Date_parse other (json_updatedAt d))
       (json_isActive d)"

section \<open>The repository contract and the use cases\<close>

record CreateUserData =
  dto_email :: jsstring
  dto_firstName :: jsstring
  dto_lastName :: jsstring

text \<open>
  An optional property of an object literal: absent, present with the value
  \<open>undefined\<close>, or present with a value. \<open>Object.keys\<close> counts the last two.
\<close>

datatype 'a field = Absent | Undefined | Given 'a

record UpdateUserData =
  upd_firstName :: "jsstring field"
  upd_lastName :: "jsstring field"

record ListOptions =
  opt_page :: "number option"
  opt_limit :: "number option"
  opt_search :: "jsstring option"
  opt_isActive :: "bool option"

text \<open>The options handed to \<open>getAll\<close>; \<open>None\<close> is \<open>undefined\<close> or absent.\<close>

record ListQuery =
  q_page :: number
  q_limit :: number
  q_search :: "jsstring option"
  q_isActive :: "bool option"

record UserPage =
  users :: "User list"
  total :: number
  page :: number
  limit :: number

text \<open>
  Every method of the repository returns an Observable. The model takes the
  Observables of the repository as single-shot, as those of an HTTP request or of
  \<open>of(x)\<close> are: subscribed, one delivers either an error notification (\<open>Inl\<close>) or one
  value (\<open>Inr\<close>). The repository may have state of its own, which each call
  returns updated.
\<close>

record 's IUserRepository =
  getAll :: "ListQuery \<Rightarrow> 's \<Rightarrow> (error + UserPage) \<times> 's"
  getById :: "jsstring \<Rightarrow> 's \<Rightarrow> (error + User option) \<times> 's"
  getByEmail :: "jsstring \<Rightarrow> 's \<Rightarrow> (error + User option) \<times> 's"
  create :: "CreateUserData \<Rightarrow> 's \<Rightarrow> (error + User) \<times> 's"
  update :: "jsstring \<Rightarrow> UpdateUserData \<Rightarrow> 's \<Rightarrow> (error + User) \<times> 's"
  delete :: "jsstring \<Rightarrow> 's \<Rightarrow> (error + bool) \<times> 's"
  permanentDelete :: "jsstring \<Rightarrow> 's \<Rightarrow> (error + bool) \<times> 's"
  existsByEmail :: "jsstring \<Rightarrow> 's \<Rightarrow> (error + bool) \<times> 's"
  getByDateRange :: "Date \<Rightarrow> Date \<Rightarrow> 's \<Rightarrow> (error + User list) \<times> 's"
  getActiveUsersCount :: "'s \<Rightarrow> (error + number) \<times> 's"
  search :: "jsstring \<Rightarrow> number \<Rightarrow> 's \<Rightarrow> (error + User list) \<times> 's"

text \<open>The calls a use case makes on the repository, in order.\<close>

datatype call =
    GetAll ListQuery
  | GetById jsstring
  | GetByEmail jsstring
  | Create CreateUserData
  | Update jsstring UpdateUserData
  | Delete jsstring
  | PermanentDelete jsstring
  | ExistsByEmail jsstring
  | GetByDateRange Date Date
  | GetActiveUsersCount
  | Search jsstring number

text \<open>
  What a caller sees who calls a use case and subscribes to the Observable it returns:
  the call itself throws (\<open>Thrown\<close>, synchronously, no Observable is returned), or the
  Observable delivers an error notification (\<open>Failed\<close>) or a value (\<open>Next\<close>). A use
  case returns this outcome, the repository calls it made and the repository's state.
\<close>

datatype 'a outcome = Thrown error | Failed error | Next 'a

type_synonym ('a, 's) run = "'a outcome \<times> call list \<times> 's"

definition deliver :: "error + 'a \<Rightarrow> 'a outcome" where
  "deliver r = (case r of Inl e \<Rightarrow> Failed e | Inr v \<Rightarrow> Next v)"

subsection \<open>CreateUserUseCase\<close>

definition validateUserData :: "CreateUserData \<Rightarrow> error option" where
  "validateUserData userData =
     (if dto_email userData = [] \<or> length (trim (dto_email userData)) = 0
        then Some (Error (js ''Email is required''))
      else if dto_firstName userData = [] \<or> length (trim (dto_firstName userData)) = 0
        then Some (Error (js ''First name is required''))
      else if dto_lastName userData = [] \<or> length (trim (dto_lastName userData)) = 0
        then Some (Error (js ''Last name is required''))
      else if \<not> test emailRegex (dto_email userData)
        then Some (Error (js ''Invalid email format''))
      else if length (trim (dto_firstName userData)) < 2
        then Some (Error (js ''First name must be at least 2 characters long''))
      else if length (trim (dto_lastName userData)) < 2
        then Some (Error (js ''Last name must be at least 2 characters long''))
      else if \<not> test nameRegex (dto_firstName userData)
        then Some (Error (js ''First name can only contain letters and spaces''))
      else if \<not> test nameRegex (dto_lastName userData)
        then Some (Error (js ''Last name can only contain letters and spaces''))
      else None)"

definition CreateUser_execute ::
  "'s IUserRepository \<Rightarrow> CreateUserData \<Rightarrow> 's \<Rightarrow> (User, 's) run"
where
  "CreateUser_execute repo userData s =
     (case validateUserData userData of
        Some e \<Rightarrow> (Thrown e, [], s)
      | None \<Rightarrow>
         (case existsByEmail repo (dto_email userData) s of
            (Inl e, s1) \<Rightarrow> (Failed e, [ExistsByEmail (dto_email userData)], s1)
          | (Inr exists, s1) \<Rightarrow>
              if exists
              then (Failed (Error (js ''User with this email already exists'')),
                    [ExistsByEmail (dto_email userData)], s1)
              else (case create repo userData s1 of
                      (r, s2) \<Rightarrow>
                        (deliver r,
                         [ExistsByEmail (dto_email userData), Create userData], s2))))"

subsection \<open>GetUserUseCase\<close>

definition requireId :: "jsstring \<Rightarrow> error option" where
  "requireId ident =
     (if ident = [] \<or> length (trim ident) = 0
      then Some (Error (js ''User ID is required'')) else None)"

definition GetUser_execute ::
  "'s IUserRepository \<Rightarrow> jsstring \<Rightarrow> 's \<Rightarrow> (User option, 's) run"
where
  "GetUser_execute repo ident s =
     (case requireId ident of
        Some e \<Rightarrow> (Thrown e, [], s)
      | None \<Rightarrow>
         (case getById repo ident s of (r, s1) \<Rightarrow> (deliver r, [GetById ident], s1)))"

definition GetUser_executeByEmail ::
  "'s IUserRepository \<Rightarrow> jsstring \<Rightarrow> 's \<Rightarrow> (User option, 's) run"
where
  "GetUser_executeByEmail repo e s =
     (if e = [] \<or> length (trim e) = 0 then (Thrown (Error (js ''Email is required'')), [], s)
      else if \<not> test emailRegex e then (Thrown (Error (js ''Invalid email format'')), [], s)
      else (case getByEmail repo e s of (r, s1) \<Rightarrow> (deliver r, [GetByEmail e], s1)))"

subsection \<open>UpdateUserUseCase\<close>

definition validateInput :: "jsstring \<Rightarrow> UpdateUserData \<Rightarrow> error option" where
  "validateInput ident userData =
     (if ident = [] \<or> length (trim ident) = 0
        then Some (Error (js ''User ID is required''))
      else if upd_firstName userData = Absent \<and> upd_lastName userData = Absent
        then Some (Error (js ''Update data is required''))
      else None)"

definition validateUpdateName :: "jsstring field \<Rightarrow> string \<Rightarrow> error option" where
  "validateUpdateName fld fieldName =
     (case fld of
        Absent \<Rightarrow> None
      | Undefined \<Rightarrow> None
      | Given name \<Rightarrow>
          if name = [] \<or> length (trim name) = 0
            then Some (Error (js (fieldName @ '' cannot be empty'')))
          else if length (trim name) < 2
            then Some (Error (js (fieldName @ '' must be at least 2 characters long'')))
          else if \<not> test nameRegex name
            then Some (Error (js (fieldName @ '' can only contain letters and spaces'')))
          else None)"

definition validateUpdateData :: "UpdateUserData \<Rightarrow> error option" where
  "validateUpdateData userData =
     (case validateUpdateName (upd_firstName userData) ''First name'' of
        Some e \<Rightarrow> Some e
      | None \<Rightarrow> validateUpdateName (upd_lastName userData) ''Last name'')"

text \<open>
  \<open>validateUpdateData\<close> is called inside the function given to \<open>switchMap\<close>, which
  turns what that function throws into an error notification of the Observable.
\<close>

definition UpdateUser_execute ::
  "'s IUserRepository \<Rightarrow> jsstring \<Rightarrow> UpdateUserData \<Rightarrow> 's \<Rightarrow> (User, 's) run"
where
  "UpdateUser_execute repo ident userData s =
     (case validateInput ident userData of
        Some e \<Rightarrow> (Thrown e, [], s)
      | None \<Rightarrow>
         (case getById repo ident s of
            (Inl e, s1) \<Rightarrow> (Failed e, [GetById ident], s1)
          | (Inr None, s1) \<Rightarrow> (Failed (Error (js ''User not found'')), [GetById ident], s1)
          | (Inr (Some existingUser), s1) \<Rightarrow>
              if \<not> isActive existingUser
              then (Failed (Error (js ''Cannot update inactive user'')), [GetById ident], s1)
              else (case validateUpdateData userData of
                      Some e \<Rightarrow> (Failed e, [GetById ident], s1)
                    | None \<Rightarrow>
                       (case update repo ident userData s1 of
                          (r, s2) \<Rightarrow>
                            (deliver r, [GetById ident, Update ident userData], s2)))))"

subsection \<open>DeleteUserUseCase\<close>

definition DeleteUser_executeSoftDelete ::
  "'s IUserRepository \<Rightarrow> jsstring \<Rightarrow> 's \<Rightarrow> (bool, 's) run"
where
  "DeleteUser_executeSoftDelete repo ident s =
     (case requireId ident of
        Some e \<Rightarrow> (Thrown e, [], s)
      | None \<Rightarrow>
         (case getById repo ident s of
            (Inl e, s1) \<Rightarrow> (Failed e, [GetById ident], s1)
          | (Inr None, s1) \<Rightarrow> (Failed (Error (js ''User not found'')), [GetById ident], s1)
          | (Inr (Some user), s1) \<Rightarrow>
              if \<not> isActive user
              then (Failed (Error (js ''User is already inactive'')), [GetById ident], s1)
              else (case delete repo ident s1 of
                      (r, s2) \<Rightarrow> (deliver r, [GetById ident, Delete ident], s2))))"

definition DeleteUser_executeHardDelete ::
  "'s IUserRepository \<Rightarrow> jsstring \<Rightarrow> 's \<Rightarrow> (bool, 's) run"
where
  "DeleteUser_executeHardDelete repo ident s =
     (case requireId ident of
        Some e \<Rightarrow> (Thrown e, [], s)
      | None \<Rightarrow>
         (case getById repo ident s of
            (Inl e, s1) \<Rightarrow> (Failed e, [GetById ident], s1)
          | (Inr None, s1) \<Rightarrow> (Failed (Error (js ''User not found'')), [GetById ident], s1)
          | (Inr (Some user), s1) \<Rightarrow>
              if isActive user
              then (Failed
                      (Error (js ''Cannot permanently delete active user. Deactivate first.'')),
                    [GetById ident], s1)
              else (case permanentDelete repo ident s1 of
                      (r, s2) \<Rightarrow>
                        (deliver r, [GetById ident, PermanentDelete ident], s2))))"

subsection \<open>ListUsersUseCase\<close>

text \<open>
  \<open>validateAndSetDefaults\<close>. \<open>options.page || defaults.page\<close> takes the default
  for an absent page and for the falsy numbers 0 and NaN; \<open>search && ...\<close> skips the
  length test for an absent and for the empty search term; \<open>search?.trim()\<close> trims
  what is left.
\<close>

definition orDefault :: "number option \<Rightarrow> number \<Rightarrow> number" where
  "orDefault v d = (case v of None \<Rightarrow> d | Some n \<Rightarrow> if truthy n then n else d)"

definition validateAndSetDefaults :: "ListOptions option \<Rightarrow> ListQuery" where
  "validateAndSetDefaults options =
     (case options of
        None \<Rightarrow> \<lparr> q_page = Num 1, q_limit = Num 10, q_search = None, q_isActive = None \<rparr>
      | Some opts \<Rightarrow>
         (let page0 = orDefault (opt_page opts) (Num 1);
              page1 = (if numLess page0 (Num 1) then Num 1 else page0);
              limit0 = orDefault (opt_limit opts) (Num 10);
              limit1 = (if numLess limit0 (Num 1) then Num 10 else limit0);
              limit2 = (if numGreater limit1 (Num 100) then Num 100 else limit1);
              search1 =
                (case opt_search opts of
                   None \<Rightarrow> None
                 | Some term \<Rightarrow>
                     if term \<noteq> [] \<and> length (trim term) < 2 then None else Some term)
          in \<lparr> q_page = page1, q_limit = limit2,
               q_search = map_option trim search1,
               q_isActive = opt_isActive opts \<rparr>))"

definition ListUsers_execute ::
  "'s IUserRepository \<Rightarrow> ListOptions option \<Rightarrow> 's \<Rightarrow> (UserPage, 's) run"
where
  "ListUsers_execute repo options s =
     (let validatedOptions = validateAndSetDefaults options in
      case getAll repo validatedOptions s of
        (r, s1) \<Rightarrow> (deliver r, [GetAll validatedOptions], s1))"

definition searchLimit :: "number option \<Rightarrow> number" where
  "searchLimit limitArg =
     (case limitArg of
        None \<Rightarrow> Num 20
      | Some n \<Rightarrow>
          if truthy n \<and> numGreater n (Num 0) then Math_min n (Num 100) else Num 20)"

definition ListUsers_executeSearch ::
  "'s IUserRepository \<Rightarrow> jsstring \<Rightarrow> number option \<Rightarrow> 's \<Rightarrow> (User list, 's) run"
where
  "ListUsers_executeSearch repo query limitArg s =
     (if query = [] \<or> length (trim query) = 0
        then (Thrown (Error (js ''Search query is required'')), [], s)
      else if length (trim query) < 2
        then (Thrown (Error (js ''Search query must be at least 2 characters long'')), [], s)
      else (case search repo (trim query) (searchLimit limitArg) s of
              (r, s1) \<Rightarrow> (deliver r, [Search (trim query) (searchLimit limitArg)], s1)))"

text \<open>
  Relational comparison of two dates compares their time values, and is false when
  either is NaN. The parameters of \<open>executeByDateRange\<close> are \<open>Date\<close> objects, which
  are truthy, so its first test never fires; \<open>now\<close> is the time value of \<open>new Date()\<close>.
\<close>

fun dateLess :: "Date \<Rightarrow> Date \<Rightarrow> bool" where
  "dateLess (TimeValue a) (TimeValue b) = (a < b)"
| "dateLess a b = False"

fun dateLessEq :: "Date \<Rightarrow> Date \<Rightarrow> bool" where
  "dateLessEq (TimeValue a) (TimeValue b) = (a \<le> b)"
| "dateLessEq a b = False"

definition ListUsers_executeByDateRange ::
  "int \<Rightarrow> 's IUserRepository \<Rightarrow> Date \<Rightarrow> Date \<Rightarrow> 's \<Rightarrow> (User list, 's) run"
where
  "ListUsers_executeByDateRange now repo startDate endDate s =
     (if dateLessEq endDate startDate
        then (Thrown (Error (js ''Start date must be before end date'')), [], s)
      else if dateLess (TimeValue now) startDate
        then (Thrown (Error (js ''Start date cannot be in the future'')), [], s)
      else (case getByDateRange repo startDate endDate s of
              (r, s1) \<Rightarrow> (deliver r, [GetByDateRange startDate endDate], s1)))"

definition ListUsers_executeGetActiveCount ::
  "'s IUserRepository \<Rightarrow> 's \<Rightarrow> (number, 's) run"
where
  "ListUsers_executeGetActiveCount repo s =
     (case getActiveUsersCount repo s of (r, s1) \<Rightarrow> (deliver r, [GetActiveUsersCount], s1))"

section \<open>Test doubles\<close>

text \<open>
  The spy object of the use case tests (\<open>jasmine.createSpyObj\<close> with
  \<open>and.returnValue(of(...))\<close>): every method returns a fixed Observable. \<open>found\<close>
  is what the two lookups deliver, \<open>flag\<close> what the methods with a boolean result
  deliver, \<open>made\<close> what \<open>create\<close> and \<open>update\<close> deliver.
\<close>

definition spyRepository ::
  "(error + User option) \<Rightarrow> (error + bool) \<Rightarrow> (error + User) \<Rightarrow> unit IUserRepository"
where
  "spyRepository found flag made =
     \<lparr> getAll = (\<lambda>q s. (Inr \<lparr> users = [], total = Num 0, page = q_page q, limit = q_limit q \<rparr>, s)),
       getById = (\<lambda>i s. (found, s)),
       getByEmail = (\<lambda>e s. (found, s)),
       create = (\<lambda>d s. (made, s)),
       update = (\<lambda>i d s. (made, s)),
       delete = (\<lambda>i s. (flag, s)),
       permanentDelete = (\<lambda>i s. (flag, s)),
       existsByEmail = (\<lambda>e s. (flag, s)),
       getByDateRange = (\<lambda>a b s. (Inr [], s)),
       getActiveUsersCount = (\<lambda>s. (Inr (Num 0), s)),
       search = (\<lambda>q n s. (Inr [], s)) \<rparr>"

text \<open>Two users of the in-memory repository: an active and an inactive one.\<close>

definition johnDoe :: User where
  "johnDoe =
     \<lparr> userId = js ''1'', email = js ''john.doe@example.com'', firstName = js ''John'',
       lastName = js ''Doe'', createdAt = TimeValue 1673740800000,
       updatedAt = TimeValue 1673740800000, isActive = True \<rparr>"

definition bobJohnson :: User where
  "bobJohnson =
     \<lparr> userId = js ''3'', email = js ''bob.johnson@example.com'', firstName = js ''Bob'',
       lastName = js ''Johnson'', createdAt = TimeValue 1678406400000,
       updatedAt = TimeValue 1678406400000, isActive = False \<rparr>"

text \<open>The payload of the tests of the create use case, and an update with a one-letter name.\<close>

definition validUserData :: CreateUserData where
  "validUserData =
     \<lparr> dto_email = js ''test@example.com'', dto_firstName = js ''John'',
       dto_lastName = js ''Doe'' \<rparr>"

definition shortFirstName :: UpdateUserData where
  "shortFirstName = \<lparr> upd_firstName = Given (js ''A''), upd_lastName = Absent \<rparr>"

text \<open>The domain error kind of a failed call, if the failure carries one.\<close>

definition failureKind :: "'a outcome \<Rightarrow> DomainErrorKind option" where
  "failureKind out =
     (case out of Thrown e \<Rightarrow> domainKind e | Failed e \<Rightarrow> domainKind e | Next v \<Rightarrow> None)"

text \<open>A transfer object without \<open>fullName\<close> and \<open>isActive\<close>, with date-only timestamps.\<close>

definition legacyJSON :: UserJSON where
  "legacyJSON =
     \<lparr> json_id = js ''1'', json_email = js ''test@example.com'', json_firstName = js ''John'',
       json_lastName = js ''Doe'', json_fullName = None, json_createdAt = js ''2023-01-01'',
       json_updatedAt = js ''2023-01-01'', json_isActive = None \<rparr>"

text \<open>
  The errors the use cases construct themselves once a repository read has answered:
  not found, inactive, already exists, the rule of the hard delete, and the name checks
  of the update.
\<close>

definition raisedAfterRead :: "error list" where
  "raisedAfterRead =
     [Error (js ''User not found''),
      Error (js ''User is already inactive''),
      Error (js ''Cannot permanently delete active user. Deactivate first.''),
      Error (js ''User with this email already exists''),
      Error (js ''Cannot update inactive user''),
      Error (js ''First name cannot be empty''),
      Error (js ''First name must be at least 2 characters long''),
      Error (js ''First name can only contain letters and spaces''),
      Error (js ''Last name cannot be empty''),
      Error (js ''Last name must be at least 2 characters long''),
      Error (js ''Last name can only contain letters and spaces'')]"

text \<open>The payload of the test for an invalid email.\<close>

definition invalidEmailData :: CreateUserData where
  "invalidEmailData =
     \<lparr> dto_email = js ''invalid-email'', dto_firstName = js ''John'',
       dto_lastName = js ''Doe'' \<rparr>"

text \<open>A user whose creation date is an invalid date, as \<open>new Date(undefined)\<close> is.\<close>

definition undatedUser :: User where
  "undatedUser =
     \<lparr> userId = js ''1'', email = js ''test@example.com'', firstName = js ''John'',
       lastName = js ''Doe'', createdAt = InvalidDate,
       updatedAt = TimeValue 1673740800000, isActive = True \<rparr>"

text \<open>The transfer object of the first user of the in-memory repository.\<close>

definition johnDoeJSON :: UserJSON where
  "johnDoeJSON =
     \<lparr> json_id = js ''1'', json_email = js ''john.doe@example.com'',
       json_firstName = js ''John'', json_lastName = js ''Doe'',
       json_fullName = Some (js ''John Doe''),
       json_createdAt = js ''2023-01-15T00:00:00.000Z'',
       json_updatedAt = js ''2023-01-15T00:00:00.000Z'', json_isActive = Some True \<rparr>"

text \<open>
  The domain error of a lost connection, as the factory of the HTTP repository builds it,
  and a transfer object with a malformed email and no \<open>isActive\<close>.
\<close>

definition connectionLost :: error where
  "connectionLost = Domain (NetworkError (js ''Network connection failed''))"

definition invalidEmailJSON :: UserJSON where
  "invalidEmailJSON =
     \<lparr> json_id = js ''1'', json_email = js ''invalid-email'', json_firstName = js ''John'',
       json_lastName = js ''Doe'', json_fullName = None, json_createdAt = js ''2023-01-01'',
       json_updatedAt = js ''2023-01-01'', json_isActive = None \<rparr>"

text \<open>The options of the listing example of the specification.\<close>

definition exampleOptions :: ListOptions where
  "exampleOptions =
     \<lparr> opt_page = Some (Num 0), opt_limit = Some (Num 500), opt_search = Some (js ''a''),
       opt_isActive = None \<rparr>"

section \<open>Evaluating strings and patterns\<close>

lemmas char_class_defs =
  js_def trim_def isWhiteSpace_def notSpaceOrAt_def isAt_def isDot_def letterOrSpace_def
  emailRegex_def nameRegex_def Plus_def

lemma validUserData_valid: "validateUserData validUserData = None"
  by (simp add: validateUserData_def validUserData_def char_class_defs)

lemma trim_Nil [simp]: "trim [] = []"
  by (simp add: trim_def)

lemma validateName_long: "2 \<le> length (trim name) \<Longrightarrow> validateName name fieldName = None"
  by (cases "name = []") (simp_all add: validateName_def)

lemma validateName_short:
  "length (trim name) < 2 \<Longrightarrow>
   validateName name fieldName =
     Some (Error (js (fieldName @ '' must be at least 2 characters long'')))"
  by (simp add: validateName_def)

lemma email_example: "test emailRegex (js ''test@example.com'')"
  by (simp add: char_class_defs)

lemma trim_John: "length (trim (js ''John'')) = 4"
  by (simp add: char_class_defs)

lemma trim_Doe: "length (trim (js ''Doe'')) = 3"
  by (simp add: char_class_defs)

lemma parse_date_only: "parseDateTimeString (js ''2023-01-01'') = None"
  by (simp add: parseDateTimeString_def parseYear_def takeDigits_def digitValue_def js_def
      expect_def)

lemma isoString_example: "isoString 1673740800000 = js ''2023-01-15T00:00:00.000Z''"
  by code_simp

lemma toJSON_johnDoe: "toJSON johnDoe = Inr johnDoeJSON"
  by (simp add: toJSON_def toISOString_def johnDoe_def johnDoeJSON_def isoString_example
      fullName_def js_def)

section \<open>Construction of the entity\<close>

text \<open>
  C3, as stated: a name with a character that is neither a letter nor a space would make
  the construction fail. The constructor only tests the email pattern and the trimmed
  lengths; \<open>John123\<close>, which the name pattern of the use cases rejects, is accepted.
\<close>

theorem new_User_letters_counterexample:
  "new_User (js ''1'') (js ''test@example.com'') (js ''John123'') (js ''Doe'')
       (TimeValue 1672531200000) (TimeValue 1672531200000) (Some True)
     = Inr \<lparr> userId = js ''1'', email = js ''test@example.com'', firstName = js ''John123'',
             lastName = js ''Doe'', createdAt = TimeValue 1672531200000,
             updatedAt = TimeValue 1672531200000, isActive = True \<rparr>
   \<and> \<not> list_all letterOrSpace (js ''John123'')
   \<and> \<not> test nameRegex (js ''John123'')"
  by (simp add: new_User_def validateEmail_def validateName_def char_class_defs)

text \<open>
  C3, amended. For every input tuple, the construction fails, and no object exists,
  exactly when the email does not match the email pattern or one of the two names has a
  trimmed length below 2; otherwise it succeeds with the fields as given (and
  \<open>isActive\<close> true when it is not given), whatever characters the names contain.
\<close>

theorem new_User_validation:
  "((\<exists>err. new_User i e f l c m a = Inl err) \<longleftrightarrow>
      \<not> test emailRegex e \<or> length (trim f) < 2 \<or> length (trim l) < 2)
   \<and> ((\<exists>u. new_User i e f l c m a = Inr u) \<longleftrightarrow>
      test emailRegex e \<and> 2 \<le> length (trim f) \<and> 2 \<le> length (trim l))
   \<and> (test emailRegex e \<and> 2 \<le> length (trim f) \<and> 2 \<le> length (trim l) \<longrightarrow>
        new_User i e f l c m a =
          Inr \<lparr> userId = i, email = e, firstName = f, lastName = l, createdAt = c,
                updatedAt = m, isActive = (case a of None \<Rightarrow> True | Some b \<Rightarrow> b) \<rparr>)"
proof -
  have ok: "test emailRegex e \<and> 2 \<le> length (trim f) \<and> 2 \<le> length (trim l) \<longrightarrow>
        new_User i e f l c m a =
          Inr \<lparr> userId = i, email = e, firstName = f, lastName = l, createdAt = c,
                updatedAt = m, isActive = (case a of None \<Rightarrow> True | Some b \<Rightarrow> b) \<rparr>"
    by (simp add: new_User_def validateEmail_def validateName_long)
  have bad: "\<not> test emailRegex e \<or> length (trim f) < 2 \<or> length (trim l) < 2 \<Longrightarrow>
      \<exists>err. new_User i e f l c m a = Inl err"
    by (auto simp add: new_User_def validateEmail_def validateName_short split: option.splits)
  from ok bad show ?thesis
    by (metis Inl_Inr_False not_le)
qed

theorem new_User_validation_witness:
  "new_User (js ''1'') (js ''test@example.com'') (js ''John'') (js ''Doe'')
       (TimeValue 1672531200000) (TimeValue 1672531200000) None
     = Inr \<lparr> userId = js ''1'', email = js ''test@example.com'', firstName = js ''John'',
             lastName = js ''Doe'', createdAt = TimeValue 1672531200000,
             updatedAt = TimeValue 1672531200000, isActive = True \<rparr>
   \<and> test emailRegex (js ''test@example.com'')
   \<and> length (trim (js ''John'')) = 4"
  using new_User_validation [of "js ''1''" "js ''test@example.com''" "js ''John''" "js ''Doe''"
      "TimeValue 1672531200000" "TimeValue 1672531200000" None]
    email_example trim_John trim_Doe
  by simp

section \<open>Deserialization defaults\<close>

text \<open>
  C10, as stated: \<open>fromJSON\<close> would produce an entity for every data object without
  \<open>isActive\<close>. It runs the constructor, which rejects a malformed email before any
  entity exists.
\<close>

theorem fromJSON_invalid_email_counterexample:
  "json_isActive invalidEmailJSON = None
   \<and> fromJSON (\<lambda>s. TimeValue 1672531200000) invalidEmailJSON
       = Inl (Error (js ''Invalid email format''))"
  by (simp add: invalidEmailJSON_def fromJSON_def new_User_def validateEmail_def char_class_defs)

text \<open>
  C10, amended. For every data object whose email and names pass the checks of the
  constructor, \<open>fromJSON\<close> produces the entity with the fields of the object, the two
  timestamps parsed, and \<open>isActive\<close> true when the object has no \<open>isActive\<close> and the
  given value when it has one; for every other data object it fails. \<open>toJSON\<close> of a
  user with two valid dates produces the object with the fields of the user, the derived
  \<open>fullName\<close> (first name, a space, last name) and the timestamps as ISO strings, and
  throws a \<open>RangeError\<close> when a date is invalid. \<open>fromJSON\<close> gives the same result
  whatever \<open>fullName\<close> holds.
\<close>

theorem fromJSON_default_active:
  "(test emailRegex (json_email d) \<and> 2 \<le> length (trim (json_firstName d))
      \<and> 2 \<le> length (trim (json_lastName d)) \<and> json_isActive d = None \<longrightarrow>
     fromJSON other d =
       Inr \<lparr> userId = json_id d, email = json_email d, firstName = json_firstName d,
             lastName = json_lastName d,
             createdAt = Date_parse other (json_createdAt d),
             updatedAt = Date_parse other (json_updatedAt d), isActive = True \<rparr>)
   \<and> (\<forall>b. test emailRegex (json_email d) \<and> 2 \<le> length (trim (json_firstName d))
      \<and> 2 \<le> length (trim (json_lastName d)) \<and> json_isActive d = Some b \<longrightarrow>
     fromJSON other d =
       Inr \<lparr> userId = json_id d, email = json_email d, firstName = json_firstName d,
             lastName = json_lastName d,
             createdAt = Date_parse other (json_createdAt d),
             updatedAt = Date_parse other (json_updatedAt d), isActive = b \<rparr>)
   \<and> (\<not> test emailRegex (json_email d) \<or> length (trim (json_firstName d)) < 2
      \<or> length (trim (json_lastName d)) < 2 \<longrightarrow>
     (\<exists>err. fromJSON other d = Inl err))
   \<and> (\<forall>tc tm. createdAt u = TimeValue tc \<and> updatedAt u = TimeValue tm \<longrightarrow>
     toJSON u =
       Inr \<lparr> json_id = userId u, json_email = email u, json_firstName = firstName u,
             json_lastName = lastName u,
             json_fullName = Some (firstName u @ js '' '' @ lastName u),
             json_createdAt = isoString tc, json_updatedAt = isoString tm,
             json_isActive = Some (isActive u) \<rparr>)
   \<and> (createdAt u = InvalidDate \<or> updatedAt u = InvalidDate \<longrightarrow>
     toJSON u = Inl (RangeError (js ''Invalid time value'')))
   \<and> (\<forall>x. fromJSON other (d\<lparr> json_fullName := x \<rparr>) = fromJSON other d)"
proof -
  have absent: "test emailRegex (json_email d) \<and> 2 \<le> length (trim (json_firstName d))
      \<and> 2 \<le> length (trim (json_lastName d)) \<and> json_isActive d = None \<longrightarrow>
     fromJSON other d =
       Inr \<lparr> userId = json_id d, email = json_email d, firstName = json_firstName d,
             lastName = json_lastName d,
             createdAt = Date_parse other (json_createdAt d),
             updatedAt = Date_parse other (json_updatedAt d), isActive = True \<rparr>"
    by (simp add: fromJSON_def new_User_def validateEmail_def validateName_long)
  have present: "\<forall>b. test emailRegex (json_email d) \<and> 2 \<le> length (trim (json_firstName d))
      \<and> 2 \<le> length (trim (json_lastName d)) \<and> json_isActive d = Some b \<longrightarrow>
     fromJSON other d =
       Inr \<lparr> userId = json_id d, email = json_email d, firstName = json_firstName d,
             lastName = json_lastName d,
             createdAt = Date_parse other (json_createdAt d),
             updatedAt = Date_parse other (json_updatedAt d), isActive = b \<rparr>"
    by (simp add: fromJSON_def new_User_def validateEmail_def validateName_long)
  have rejected: "\<not> test emailRegex (json_email d) \<or> length (trim (json_firstName d)) < 2
      \<or> length (trim (json_lastName d)) < 2 \<longrightarrow>
     (\<exists>err. fromJSON other d = Inl err)"
    by (auto simp add: fromJSON_def new_User_def validateEmail_def validateName_short
        split: option.splits)
  have written: "\<forall>tc tm. createdAt u = TimeValue tc \<and> updatedAt u = TimeValue tm \<longrightarrow>
     toJSON u =
       Inr \<lparr> json_id = userId u, json_email = email u, json_firstName = firstName u,
             json_lastName = lastName u,
             json_fullName = Some (firstName u @ js '' '' @ lastName u),
             json_createdAt = isoString tc, json_updatedAt = isoString tm,
             json_isActive = Some (isActive u) \<rparr>"
    by (simp add: toJSON_def toISOString_def fullName_def)
  have thrown: "createdAt u = InvalidDate \<or> updatedAt u = InvalidDate \<longrightarrow>
     toJSON u = Inl (RangeError (js ''Invalid time value''))"
    by (auto simp add: toJSON_def toISOString_def split: Date.splits)
  have ignored: "\<forall>x. fromJSON other (d\<lparr> json_fullName := x \<rparr>) = fromJSON other d"
    by (simp add: fromJSON_def)
  show ?thesis
    by (rule conjI [OF absent] conjI [OF present] conjI [OF rejected] conjI [OF written]
        conjI [OF thrown] ignored)+
qed

theorem fromJSON_default_active_witness:
  "fromJSON (\<lambda>s. TimeValue 1672531200000) legacyJSON =
     Inr \<lparr> userId = js ''1'', email = js ''test@example.com'', firstName = js ''John'',
           lastName = js ''Doe'', createdAt = TimeValue 1672531200000,
           updatedAt = TimeValue 1672531200000, isActive = True \<rparr>
   \<and> json_isActive legacyJSON = None
   \<and> toJSON johnDoe = Inr johnDoeJSON"
proof -
  have fields: "test emailRegex (json_email legacyJSON)"
    "2 \<le> length (trim (json_firstName legacyJSON))"
    "2 \<le> length (trim (json_lastName legacyJSON))" "json_isActive legacyJSON = None"
    using email_example trim_John trim_Doe by (simp_all add: legacyJSON_def)
  have dates: "Date_parse (\<lambda>s. TimeValue 1672531200000) (json_createdAt legacyJSON)
      = TimeValue 1672531200000"
    "Date_parse (\<lambda>s. TimeValue 1672531200000) (json_updatedAt legacyJSON)
      = TimeValue 1672531200000"
    by (simp_all add: legacyJSON_def Date_parse_def parse_date_only)
  have "fromJSON (\<lambda>s. TimeValue 1672531200000) legacyJSON =
     Inr \<lparr> userId = json_id legacyJSON, email = json_email legacyJSON,
           firstName = json_firstName legacyJSON, lastName = json_lastName legacyJSON,
           createdAt = Date_parse (\<lambda>s. TimeValue 1672531200000) (json_createdAt legacyJSON),
           updatedAt = Date_parse (\<lambda>s. TimeValue 1672531200000) (json_updatedAt legacyJSON),
           isActive = True \<rparr>"
    using fromJSON_default_active [of legacyJSON "\<lambda>s. TimeValue 1672531200000" johnDoe] fields
    by blast
  then show ?thesis
    using toJSON_johnDoe fields(4) unfolding dates by (simp add: legacyJSON_def)
qed

section \<open>Deletion\<close>

lemma requireId_js_digit [simp]: "requireId (js ''1'') = None" "requireId (js ''3'') = None"
  by (simp_all add: requireId_def js_def trim_def isWhiteSpace_def)

text \<open>
  C1. Once the id check has passed and \<open>getById\<close> has delivered a user: the soft delete of
  an inactive user fails after that one read, without calling \<open>delete\<close>; the hard delete of
  an active user fails in the same way, without calling \<open>permanentDelete\<close>; the hard
  delete of an inactive user calls \<open>permanentDelete\<close> once, after the read, and delivers
  what it delivers. In every run, whatever the repository answers, \<open>delete\<close> is only
  ever called by the soft delete after an active user was fetched and
  \<open>permanentDelete\<close> only by the hard delete after an inactive user was fetched, so
  a user leaves the store only by Active, Inactive, Removed.
\<close>

theorem DeleteUser_order:
  fixes repo :: "'s IUserRepository"
  assumes "requireId ident = None"
    and "getById repo ident s = (Inr (Some user), s1)"
  shows
    "(\<not> isActive user \<longrightarrow>
        DeleteUser_executeSoftDelete repo ident s =
          (Failed (Error (js ''User is already inactive'')), [GetById ident], s1))
     \<and> (isActive user \<longrightarrow>
        DeleteUser_executeHardDelete repo ident s =
          (Failed (Error (js ''Cannot permanently delete active user. Deactivate first.'')),
           [GetById ident], s1))
     \<and> (\<not> isActive user \<longrightarrow>
        DeleteUser_executeHardDelete repo ident s =
          (deliver (fst (permanentDelete repo ident s1)),
           [GetById ident, PermanentDelete ident],
           snd (permanentDelete repo ident s1)))
     \<and> (isActive user \<longrightarrow>
        DeleteUser_executeSoftDelete repo ident s =
          (deliver (fst (delete repo ident s1)),
           [GetById ident, Delete ident],
           snd (delete repo ident s1)))
     \<and> (\<forall>repo' :: 's IUserRepository. \<forall>i s' j.
          PermanentDelete j \<notin> set (fst (snd (DeleteUser_executeSoftDelete repo' i s')))
          \<and> Delete j \<notin> set (fst (snd (DeleteUser_executeHardDelete repo' i s')))
          \<and> (Delete j \<in> set (fst (snd (DeleteUser_executeSoftDelete repo' i s'))) \<longrightarrow>
               (\<exists>u. fst (getById repo' i s') = Inr (Some u) \<and> isActive u))
          \<and> (PermanentDelete j \<in> set (fst (snd (DeleteUser_executeHardDelete repo' i s'))) \<longrightarrow>
               (\<exists>u. fst (getById repo' i s') = Inr (Some u) \<and> \<not> isActive u)))"
proof -
  have soft: "\<not> isActive user \<longrightarrow>
        DeleteUser_executeSoftDelete repo ident s =
          (Failed (Error (js ''User is already inactive'')), [GetById ident], s1)"
    using assms by (simp add: DeleteUser_executeSoftDelete_def)
  have hard_active: "isActive user \<longrightarrow>
        DeleteUser_executeHardDelete repo ident s =
          (Failed (Error (js ''Cannot permanently delete active user. Deactivate first.'')),
           [GetById ident], s1)"
    using assms by (simp add: DeleteUser_executeHardDelete_def)
  have hard_inactive: "\<not> isActive user \<longrightarrow>
        DeleteUser_executeHardDelete repo ident s =
          (deliver (fst (permanentDelete repo ident s1)),
           [GetById ident, PermanentDelete ident],
           snd (permanentDelete repo ident s1))"
    using assms by (simp add: DeleteUser_executeHardDelete_def split: prod.split)
  have soft_active: "isActive user \<longrightarrow>
        DeleteUser_executeSoftDelete repo ident s =
          (deliver (fst (delete repo ident s1)),
           [GetById ident, Delete ident],
           snd (delete repo ident s1))"
    using assms by (simp add: DeleteUser_executeSoftDelete_def split: prod.split)
  have order: "PermanentDelete j \<notin> set (fst (snd (DeleteUser_executeSoftDelete repo' i s')))
          \<and> Delete j \<notin> set (fst (snd (DeleteUser_executeHardDelete repo' i s')))
          \<and> (Delete j \<in> set (fst (snd (DeleteUser_executeSoftDelete repo' i s'))) \<longrightarrow>
               (\<exists>u. fst (getById repo' i s') = Inr (Some u) \<and> isActive u))
          \<and> (PermanentDelete j \<in> set (fst (snd (DeleteUser_executeHardDelete repo' i s'))) \<longrightarrow>
               (\<exists>u. fst (getById repo' i s') = Inr (Some u) \<and> \<not> isActive u))"
    for repo' :: "'s IUserRepository" and i s' j
    by (auto simp add: DeleteUser_executeSoftDelete_def DeleteUser_executeHardDelete_def
        split: option.splits prod.splits sum.splits if_splits)
  from soft hard_active hard_inactive soft_active order show ?thesis by blast
qed

theorem DeleteUser_order_witness:
  "DeleteUser_executeSoftDelete (spyRepository (Inr (Some bobJohnson)) (Inr True) (Inr bobJohnson))
       (js ''3'') () =
     (Failed (Error (js ''User is already inactive'')), [GetById (js ''3'')], ())
   \<and> DeleteUser_executeHardDelete (spyRepository (Inr (Some bobJohnson)) (Inr True) (Inr bobJohnson))
       (js ''3'') () =
     (Next True, [GetById (js ''3''), PermanentDelete (js ''3'')], ())
   \<and> DeleteUser_executeHardDelete (spyRepository (Inr (Some johnDoe)) (Inr True) (Inr johnDoe))
       (js ''1'') () =
     (Failed (Error (js ''Cannot permanently delete active user. Deactivate first.'')),
      [GetById (js ''1'')], ())
   \<and> DeleteUser_executeSoftDelete (spyRepository (Inr (Some johnDoe)) (Inr True) (Inr johnDoe))
       (js ''1'') () =
     (Next True, [GetById (js ''1''), Delete (js ''1'')], ())"
  using
    DeleteUser_order [of "js ''3''" "spyRepository (Inr (Some bobJohnson)) (Inr True) (Inr bobJohnson)"
      "()" bobJohnson "()"]
    DeleteUser_order [of "js ''1''" "spyRepository (Inr (Some johnDoe)) (Inr True) (Inr johnDoe)"
      "()" johnDoe "()"]
  by (simp add: spyRepository_def bobJohnson_def johnDoe_def deliver_def)

section \<open>Creation\<close>

text \<open>
  C2, as stated: with \<open>existsByEmail\<close> delivering true the failure would be the
  domain error UserAlreadyExists. On the payload of the tests the failure is a plain
  \<open>Error\<close> with the message of the source, which has no domain error kind.
\<close>

theorem CreateUser_exists_counterexample:
  "validateUserData validUserData = None
   \<and> fst (CreateUser_execute (spyRepository (Inr None) (Inr True) (Inr johnDoe)) validUserData ())
       = Failed (Error (js ''User with this email already exists''))
   \<and> failureKind (fst (CreateUser_execute (spyRepository (Inr None) (Inr True) (Inr johnDoe))
         validUserData ())) \<noteq> Some UserAlreadyExists"
  by (simp add: validUserData_valid CreateUser_execute_def spyRepository_def failureKind_def)

text \<open>
  C2, amended. For every payload that passes \<open>validateUserData\<close>: if \<open>existsByEmail\<close>
  delivers true, \<open>execute\<close> fails with the plain error
  \<open>User with this email already exists\<close> and the only repository call is that
  existence check; if it delivers false, the calls are exactly one existence check
  followed by one \<open>create\<close> with the same payload, and \<open>execute\<close> delivers what
  \<open>create\<close> delivers, in particular the created entity.
\<close>

theorem CreateUser_existence_check:
  fixes repo :: "'s IUserRepository"
  assumes "validateUserData userData = None"
  shows
    "(existsByEmail repo (dto_email userData) s = (Inr True, s1) \<longrightarrow>
        CreateUser_execute repo userData s =
          (Failed (Error (js ''User with this email already exists'')),
           [ExistsByEmail (dto_email userData)], s1))
     \<and> (existsByEmail repo (dto_email userData) s = (Inr False, s1) \<longrightarrow>
        CreateUser_execute repo userData s =
          (deliver (fst (create repo userData s1)),
           [ExistsByEmail (dto_email userData), Create userData],
           snd (create repo userData s1)))
     \<and> (existsByEmail repo (dto_email userData) s = (Inr False, s1)
          \<and> create repo userData s1 = (Inr u, s2) \<longrightarrow>
        CreateUser_execute repo userData s =
          (Next u, [ExistsByEmail (dto_email userData), Create userData], s2))"
  using assms by (simp add: CreateUser_execute_def deliver_def split: prod.split)

theorem CreateUser_existence_check_witness:
  "CreateUser_execute (spyRepository (Inr None) (Inr True) (Inr johnDoe)) validUserData () =
     (Failed (Error (js ''User with this email already exists'')),
      [ExistsByEmail (js ''test@example.com'')], ())
   \<and> CreateUser_execute (spyRepository (Inr None) (Inr False) (Inr johnDoe)) validUserData () =
     (Next johnDoe, [ExistsByEmail (js ''test@example.com''), Create validUserData], ())"
  using
    CreateUser_existence_check [OF validUserData_valid,
      of "spyRepository (Inr None) (Inr True) (Inr johnDoe)" "()" "()" johnDoe "()"]
    CreateUser_existence_check [OF validUserData_valid,
      of "spyRepository (Inr None) (Inr False) (Inr johnDoe)" "()" "()" johnDoe "()"]
  by (simp add: spyRepository_def validUserData_def deliver_def)

section \<open>Update\<close>

text \<open>
  C6. When the id and the payload have passed \<open>validateInput\<close> and \<open>getById\<close>
  delivers an inactive user, \<open>execute\<close> fails with \<open>Cannot update inactive user\<close>
  after that one read, whatever the name fields of the payload are: their validation is
  not reached, and \<open>update\<close> is not called.
\<close>

theorem UpdateUser_inactive_first:
  fixes repo :: "'s IUserRepository"
  assumes "validateInput ident userData = None"
    and "getById repo ident s = (Inr (Some existingUser), s1)"
    and "\<not> isActive existingUser"
  shows
    "UpdateUser_execute repo ident userData s =
       (Failed (Error (js ''Cannot update inactive user'')), [GetById ident], s1)
     \<and> (\<forall>j d. Update j d \<notin> set (fst (snd (UpdateUser_execute repo ident userData s))))"
  using assms by (simp add: UpdateUser_execute_def)

theorem UpdateUser_inactive_first_witness:
  "validateUpdateData shortFirstName =
     Some (Error (js ''First name must be at least 2 characters long''))
   \<and> UpdateUser_execute (spyRepository (Inr (Some bobJohnson)) (Inr True) (Inr bobJohnson))
       (js ''3'') shortFirstName () =
     (Failed (Error (js ''Cannot update inactive user'')), [GetById (js ''3'')], ())"
  using UpdateUser_inactive_first
    [of "js ''3''" shortFirstName
      "spyRepository (Inr (Some bobJohnson)) (Inr True) (Inr bobJohnson)" "()" bobJohnson "()"]
  by (simp add: spyRepository_def bobJohnson_def shortFirstName_def validateInput_def
      validateUpdateData_def validateUpdateName_def char_class_defs)

section \<open>Listing and search\<close>

lemma validateAndSetDefaults_page:
  "\<not> numLess (q_page (validateAndSetDefaults options)) (Num 1)
   \<and> q_page (validateAndSetDefaults options) \<noteq> NaN"
  by (cases options) (auto simp add: validateAndSetDefaults_def Let_def orDefault_def truthy_def
      split: option.splits)

lemma validateAndSetDefaults_limit:
  "\<not> numLess (q_limit (validateAndSetDefaults options)) (Num 1)
   \<and> \<not> numGreater (q_limit (validateAndSetDefaults options)) (Num 100)
   \<and> q_limit (validateAndSetDefaults options) \<noteq> NaN"
  by (cases options)
    (simp_all add: validateAndSetDefaults_def Let_def orDefault_def truthy_def numGreater_def
      split: option.splits)

lemma normalized_page:
  "q_page (validateAndSetDefaults (Some opts)) =
     (case opt_page opts of
        None \<Rightarrow> Num 1
      | Some p \<Rightarrow> if p = NaN \<or> numLess p (Num 1) then Num 1 else p)"
  by (auto simp add: validateAndSetDefaults_def Let_def orDefault_def truthy_def
      split: option.splits)

lemma normalized_limit:
  "q_limit (validateAndSetDefaults (Some opts)) =
     (case opt_limit opts of
        None \<Rightarrow> Num 10
      | Some l \<Rightarrow>
          if l = NaN \<or> numLess l (Num 1) then Num 10
          else if numGreater l (Num 100) then Num 100 else l)"
  by (auto simp add: validateAndSetDefaults_def Let_def orDefault_def truthy_def numGreater_def
      split: option.splits)

lemma normalized_search:
  "q_search (validateAndSetDefaults (Some opts)) =
     (case opt_search opts of
        None \<Rightarrow> None
      | Some query \<Rightarrow>
          if query = [] then Some []
          else if length (trim query) < 2 then None else Some (trim query))"
  by (auto simp add: validateAndSetDefaults_def Let_def split: option.splits)

text \<open>
  C5, as stated: every search term of trimmed length below 2 would be replaced by
  \<open>undefined\<close>. The empty term (the empty list of code units) has trimmed length 0;
  \<open>search && ...\<close> takes it for no search and leaves it alone, and the repository is
  handed the empty string.
\<close>

theorem ListUsers_empty_search:
  "ListUsers_execute (spyRepository (Inr None) (Inr True) (Inr johnDoe))
     (Some \<lparr> opt_page = None, opt_limit = None, opt_search = Some [],
             opt_isActive = None \<rparr>) ()
   = (Next \<lparr> users = [], total = Num 0, page = Num 1, limit = Num 10 \<rparr>,
      [GetAll \<lparr> q_page = Num 1, q_limit = Num 10, q_search = Some [], q_isActive = None \<rparr>],
      ())
   \<and> length (trim ([] :: jsstring)) < 2"
  by (simp add: ListUsers_execute_def validateAndSetDefaults_def orDefault_def spyRepository_def
      deliver_def numGreater_def)

text \<open>
  C5, amended. \<open>execute\<close> makes one repository call, \<open>getAll\<close> with the normalized
  options, and delivers what it delivers. Without options these are page 1 and limit
  10. With options: the page is 1 when it is absent, NaN or below 1, and the given page
  otherwise; the limit is 10 when it is absent, NaN or below 1, 100 when it is above
  100, and the given limit otherwise; the search term is absent when it is absent or
  when it is not empty and its trimmed length is below 2, the empty string when it is
  the empty string, and the trimmed term otherwise; \<open>isActive\<close> is handed on. So the
  page is never below 1 and the limit lies between 1 and 100.
\<close>

theorem ListUsers_normalization:
  fixes repo :: "'s IUserRepository"
  shows
    "ListUsers_execute repo options s =
       (deliver (fst (getAll repo (validateAndSetDefaults options) s)),
        [GetAll (validateAndSetDefaults options)],
        snd (getAll repo (validateAndSetDefaults options) s))
     \<and> validateAndSetDefaults None =
         \<lparr> q_page = Num 1, q_limit = Num 10, q_search = None, q_isActive = None \<rparr>
     \<and> (\<forall>opts.
          q_page (validateAndSetDefaults (Some opts)) =
            (case opt_page opts of
               None \<Rightarrow> Num 1
             | Some p \<Rightarrow> if p = NaN \<or> numLess p (Num 1) then Num 1 else p)
          \<and> q_limit (validateAndSetDefaults (Some opts)) =
            (case opt_limit opts of
               None \<Rightarrow> Num 10
             | Some l \<Rightarrow>
                 if l = NaN \<or> numLess l (Num 1) then Num 10
                 else if numGreater l (Num 100) then Num 100 else l)
          \<and> q_search (validateAndSetDefaults (Some opts)) =
            (case opt_search opts of
               None \<Rightarrow> None
             | Some query \<Rightarrow>
                 if query = [] then Some []
                 else if length (trim query) < 2 then None else Some (trim query))
          \<and> q_isActive (validateAndSetDefaults (Some opts)) = opt_isActive opts)
     \<and> \<not> numLess (q_page (validateAndSetDefaults options)) (Num 1)
     \<and> \<not> numLess (q_limit (validateAndSetDefaults options)) (Num 1)
     \<and> \<not> numGreater (q_limit (validateAndSetDefaults options)) (Num 100)"
proof -
  have run: "ListUsers_execute repo options s =
       (deliver (fst (getAll repo (validateAndSetDefaults options) s)),
        [GetAll (validateAndSetDefaults options)],
        snd (getAll repo (validateAndSetDefaults options) s))"
    by (simp add: ListUsers_execute_def Let_def split: prod.split)
  have none: "validateAndSetDefaults None =
         \<lparr> q_page = Num 1, q_limit = Num 10, q_search = None, q_isActive = None \<rparr>"
    by (simp add: validateAndSetDefaults_def)
  have active: "q_isActive (validateAndSetDefaults (Some opts)) = opt_isActive opts" for opts
    by (simp add: validateAndSetDefaults_def Let_def)
  show ?thesis
    using run none active normalized_page normalized_limit normalized_search
      validateAndSetDefaults_page [of options] validateAndSetDefaults_limit [of options]
    by simp
qed

theorem ListUsers_normalization_witness:
  "ListUsers_execute (spyRepository (Inr None) (Inr True) (Inr johnDoe)) (Some exampleOptions) ()
   = (Next \<lparr> users = [], total = Num 0, page = Num 1, limit = Num 100 \<rparr>,
      [GetAll \<lparr> q_page = Num 1, q_limit = Num 100, q_search = None, q_isActive = None \<rparr>],
      ())"
proof -
  have short: "js ''a'' \<noteq> []" "length (trim (js ''a'')) < 2"
    by (simp_all add: char_class_defs)
  have q: "validateAndSetDefaults (Some exampleOptions) =
      \<lparr> q_page = Num 1, q_limit = Num 100, q_search = None, q_isActive = None \<rparr>"
    using ListUsers_normalization
      [of "spyRepository (Inr None) (Inr True) (Inr johnDoe)" "Some exampleOptions" "()"] short
    by (simp add: exampleOptions_def numGreater_def)
  show ?thesis
    using ListUsers_normalization
      [of "spyRepository (Inr None) (Inr True) (Inr johnDoe)" "Some exampleOptions" "()"]
    by (simp add: q spyRepository_def deliver_def)
qed

text \<open>
  C9, as stated: the limit handed to \<open>search\<close> would lie in the range from 1 to 100.
  A limit of one half is handed on as it is, and a limit of \<open>-5\<close> becomes the
  default 20, not the bound 1.
\<close>

theorem executeSearch_counterexample:
  "fst (snd (ListUsers_executeSearch (spyRepository (Inr None) (Inr True) (Inr johnDoe))
       (js ''ab'') (Some (Num (1 / 2))) ()))
     = [Search (js ''ab'') (Num (1 / 2))]
   \<and> numLess (Num (1 / 2)) (Num 1)
   \<and> fst (snd (ListUsers_executeSearch (spyRepository (Inr None) (Inr True) (Inr johnDoe))
       (js ''ab'') (Some (Num (- 5))) ()))
     = [Search (js ''ab'') (Num 20)]"
  by (simp add: ListUsers_executeSearch_def searchLimit_def truthy_def numGreater_def Math_min_def
      spyRepository_def char_class_defs)

text \<open>
  C9, amended. \<open>executeSearch\<close> throws a plain error, before any repository call,
  whenever the trimmed query is shorter than 2; otherwise its one repository call is
  \<open>search\<close> with the trimmed query and a limit which is 20 when no limit is given,
  the smaller of the limit and 100 when the limit is greater than 0, and 20 for every
  other limit (0, a negative number, NaN). That limit lies between 1 and 100 unless
  the given limit lies strictly between 0 and 1.
\<close>

theorem executeSearch_behaviour:
  fixes repo :: "'s IUserRepository"
  shows
    "(length (trim query) < 2 \<longrightarrow>
        (\<exists>msg. ListUsers_executeSearch repo query limitArg s = (Thrown (Error msg), [], s)))
     \<and> (2 \<le> length (trim query) \<longrightarrow>
        ListUsers_executeSearch repo query limitArg s =
          (deliver (fst (search repo (trim query) (searchLimit limitArg) s)),
           [Search (trim query) (searchLimit limitArg)],
           snd (search repo (trim query) (searchLimit limitArg) s)))
     \<and> searchLimit None = Num 20
     \<and> (\<forall>n. numGreater n (Num 0) \<longrightarrow> searchLimit (Some n) = Math_min n (Num 100))
     \<and> (\<forall>n. \<not> numGreater n (Num 0) \<longrightarrow> searchLimit (Some n) = Num 20)
     \<and> (\<forall>n. \<not> (numGreater n (Num 0) \<and> numLess n (Num 1)) \<longrightarrow>
           \<not> numLess (searchLimit (Some n)) (Num 1)
           \<and> \<not> numGreater (searchLimit (Some n)) (Num 100)
           \<and> searchLimit (Some n) \<noteq> NaN)"
proof -
  have short: "length (trim query) < 2 \<longrightarrow>
        (\<exists>msg. ListUsers_executeSearch repo query limitArg s = (Thrown (Error msg), [], s))"
    by (auto simp add: ListUsers_executeSearch_def)
  have long: "2 \<le> length (trim query) \<longrightarrow>
        ListUsers_executeSearch repo query limitArg s =
          (deliver (fst (search repo (trim query) (searchLimit limitArg) s)),
           [Search (trim query) (searchLimit limitArg)],
           snd (search repo (trim query) (searchLimit limitArg) s))"
    by (cases "query = []") (auto simp add: ListUsers_executeSearch_def split: prod.split)
  have pos: "numGreater n (Num 0) \<longrightarrow> searchLimit (Some n) = Math_min n (Num 100)" for n
    by (cases n) (simp_all add: searchLimit_def truthy_def numGreater_def)
  have nonpos: "\<not> numGreater n (Num 0) \<longrightarrow> searchLimit (Some n) = Num 20" for n
    by (simp add: searchLimit_def)
  have range: "\<not> (numGreater n (Num 0) \<and> numLess n (Num 1)) \<longrightarrow>
           \<not> numLess (searchLimit (Some n)) (Num 1)
           \<and> \<not> numGreater (searchLimit (Some n)) (Num 100)
           \<and> searchLimit (Some n) \<noteq> NaN" for n
    by (cases n) (simp_all add: searchLimit_def truthy_def numGreater_def Math_min_def)
  have none: "searchLimit None = Num 20"
    by (simp add: searchLimit_def)
  from short long none pos nonpos range show ?thesis by blast
qed

theorem executeSearch_behaviour_witness:
  "ListUsers_executeSearch (spyRepository (Inr None) (Inr True) (Inr johnDoe)) (js '' a '') None ()
     = (Thrown (Error (js ''Search query must be at least 2 characters long'')), [], ())
   \<and> ListUsers_executeSearch (spyRepository (Inr None) (Inr True) (Inr johnDoe))
       (js '' john '') (Some (Num 500)) ()
     = (Next [], [Search (js ''john'') (Num 100)], ())
   \<and> searchLimit (Some (Num 0)) = Num 20"
  using
    executeSearch_behaviour [of "js '' john ''" "spyRepository (Inr None) (Inr True) (Inr johnDoe)"
      "Some (Num 500)" "()"]
  by (simp add: ListUsers_executeSearch_def searchLimit_def truthy_def numGreater_def Math_min_def
      spyRepository_def deliver_def char_class_defs)

section \<open>The errors of the use cases\<close>

lemma raisedAfterRead_untyped: "list_all (\<lambda>e. domainKind e = None) raisedAfterRead"
  by (simp add: raisedAfterRead_def)

lemma validateUpdateName_raised:
  "validateUpdateName fld ''First name'' = Some e \<Longrightarrow> e \<in> set raisedAfterRead"
  "validateUpdateName fld ''Last name'' = Some e \<Longrightarrow> e \<in> set raisedAfterRead"
  by (auto simp add: validateUpdateName_def raisedAfterRead_def split: field.splits if_splits)

lemma validateUpdateData_raised:
  "validateUpdateData userData = Some e \<Longrightarrow> e \<in> set raisedAfterRead"
  by (auto simp add: validateUpdateData_def validateUpdateName_raised split: option.splits)

lemma code_identifies_kind: "code k = code k' \<Longrightarrow> k = k'"
  by (cases k; cases k') (simp_all add: js_def)

text \<open>Every path of the four use cases that read before they write, once the arguments have passed.\<close>

lemma CreateUser_run:
  fixes repo :: "'s IUserRepository"
  shows "validateUserData userData = None \<longrightarrow>
     (\<forall>e s1. existsByEmail repo (dto_email userData) s = (Inl e, s1) \<longrightarrow>
        CreateUser_execute repo userData s =
          (Failed e, [ExistsByEmail (dto_email userData)], s1))
     \<and> (\<forall>s1. existsByEmail repo (dto_email userData) s = (Inr True, s1) \<longrightarrow>
        CreateUser_execute repo userData s =
          (Failed (Error (js ''User with this email already exists'')),
           [ExistsByEmail (dto_email userData)], s1))
     \<and> (\<forall>s1 e s2. existsByEmail repo (dto_email userData) s = (Inr False, s1)
            \<and> create repo userData s1 = (Inl e, s2) \<longrightarrow>
        CreateUser_execute repo userData s =
          (Failed e, [ExistsByEmail (dto_email userData), Create userData], s2))"
  by (simp add: CreateUser_execute_def deliver_def)

lemma UpdateUser_run:
  fixes repo :: "'s IUserRepository"
  shows "validateInput ident upd = None \<longrightarrow>
     (\<forall>e s1. getById repo ident s = (Inl e, s1) \<longrightarrow>
        UpdateUser_execute repo ident upd s = (Failed e, [GetById ident], s1))
     \<and> (\<forall>s1. getById repo ident s = (Inr None, s1) \<longrightarrow>
        UpdateUser_execute repo ident upd s =
          (Failed (Error (js ''User not found'')), [GetById ident], s1))
     \<and> (\<forall>u s1. getById repo ident s = (Inr (Some u), s1) \<and> \<not> isActive u \<longrightarrow>
        UpdateUser_execute repo ident upd s =
          (Failed (Error (js ''Cannot update inactive user'')), [GetById ident], s1))
     \<and> (\<forall>u s1 e. getById repo ident s = (Inr (Some u), s1) \<and> isActive u
            \<and> validateUpdateData upd = Some e \<longrightarrow>
        UpdateUser_execute repo ident upd s = (Failed e, [GetById ident], s1)
        \<and> e \<in> set raisedAfterRead)
     \<and> (\<forall>u s1 e s2. getById repo ident s = (Inr (Some u), s1) \<and> isActive u
            \<and> validateUpdateData upd = None \<and> update repo ident upd s1 = (Inl e, s2) \<longrightarrow>
        UpdateUser_execute repo ident upd s =
          (Failed e, [GetById ident, Update ident upd], s2))"
  by (auto simp add: UpdateUser_execute_def deliver_def intro: validateUpdateData_raised)

lemma SoftDelete_run:
  fixes repo :: "'s IUserRepository"
  shows "requireId ident = None \<longrightarrow>
     (\<forall>e s1. getById repo ident s = (Inl e, s1) \<longrightarrow>
        DeleteUser_executeSoftDelete repo ident s = (Failed e, [GetById ident], s1))
     \<and> (\<forall>s1. getById repo ident s = (Inr None, s1) \<longrightarrow>
        DeleteUser_executeSoftDelete repo ident s =
          (Failed (Error (js ''User not found'')), [GetById ident], s1))
     \<and> (\<forall>u s1. getById repo ident s = (Inr (Some u), s1) \<and> \<not> isActive u \<longrightarrow>
        DeleteUser_executeSoftDelete repo ident s =
          (Failed (Error (js ''User is already inactive'')), [GetById ident], s1))
     \<and> (\<forall>u s1 e s2. getById repo ident s = (Inr (Some u), s1) \<and> isActive u
            \<and> delete repo ident s1 = (Inl e, s2) \<longrightarrow>
        DeleteUser_executeSoftDelete repo ident s =
          (Failed e, [GetById ident, Delete ident], s2))"
  by (simp add: DeleteUser_executeSoftDelete_def deliver_def)

lemma HardDelete_run:
  fixes repo :: "'s IUserRepository"
  shows "requireId ident = None \<longrightarrow>
     (\<forall>e s1. getById repo ident s = (Inl e, s1) \<longrightarrow>
        DeleteUser_executeHardDelete repo ident s = (Failed e, [GetById ident], s1))
     \<and> (\<forall>s1. getById repo ident s = (Inr None, s1) \<longrightarrow>
        DeleteUser_executeHardDelete repo ident s =
          (Failed (Error (js ''User not found'')), [GetById ident], s1))
     \<and> (\<forall>u s1. getById repo ident s = (Inr (Some u), s1) \<and> isActive u \<longrightarrow>
        DeleteUser_executeHardDelete repo ident s =
          (Failed (Error (js ''Cannot permanently delete active user. Deactivate first.'')),
           [GetById ident], s1))
     \<and> (\<forall>u s1 e s2. getById repo ident s = (Inr (Some u), s1) \<and> \<not> isActive u
            \<and> permanentDelete repo ident s1 = (Inl e, s2) \<longrightarrow>
        DeleteUser_executeHardDelete repo ident s =
          (Failed e, [GetById ident, PermanentDelete ident], s2))"
  by (simp add: DeleteUser_executeHardDelete_def deliver_def)

text \<open>
  Conversely, what a failed run delivers: one of the plain errors of the use case, or
  the error the repository delivered in this very run, at the state the run reached.
\<close>

lemma CreateUser_failed:
  fixes repo :: "'s IUserRepository"
  shows "\<forall>e. fst (CreateUser_execute repo userData s) = Failed e \<longrightarrow>
     e \<in> set raisedAfterRead
     \<or> (\<exists>s1. existsByEmail repo (dto_email userData) s = (Inl e, s1))
     \<or> (\<exists>s1 s2. existsByEmail repo (dto_email userData) s = (Inr False, s1)
           \<and> create repo userData s1 = (Inl e, s2))"
  by (auto simp add: CreateUser_execute_def raisedAfterRead_def deliver_def
      split: option.splits prod.splits sum.splits if_splits)

lemma UpdateUser_failed:
  fixes repo :: "'s IUserRepository"
  shows "\<forall>e. fst (UpdateUser_execute repo ident upd s) = Failed e \<longrightarrow>
     e \<in> set raisedAfterRead
     \<or> (\<exists>s1. getById repo ident s = (Inl e, s1))
     \<or> (\<exists>u s1 s2. getById repo ident s = (Inr (Some u), s1) \<and> isActive u
           \<and> update repo ident upd s1 = (Inl e, s2))"
proof -
  have "validateUpdateData upd = Some e \<Longrightarrow> e \<in> set raisedAfterRead" for e
    by (rule validateUpdateData_raised)
  moreover have "Error (js ''User not found'') \<in> set raisedAfterRead"
    "Error (js ''Cannot update inactive user'') \<in> set raisedAfterRead"
    by (simp_all add: raisedAfterRead_def)
  ultimately show ?thesis
    by (auto simp add: UpdateUser_execute_def deliver_def
        split: option.splits prod.splits sum.splits if_splits)
qed

lemma SoftDelete_failed:
  fixes repo :: "'s IUserRepository"
  shows "\<forall>e. fst (DeleteUser_executeSoftDelete repo ident s) = Failed e \<longrightarrow>
     e \<in> set raisedAfterRead
     \<or> (\<exists>s1. getById repo ident s = (Inl e, s1))
     \<or> (\<exists>u s1 s2. getById repo ident s = (Inr (Some u), s1) \<and> isActive u
           \<and> delete repo ident s1 = (Inl e, s2))"
  by (auto simp add: DeleteUser_executeSoftDelete_def raisedAfterRead_def deliver_def
      split: option.splits prod.splits sum.splits if_splits)

lemma HardDelete_failed:
  fixes repo :: "'s IUserRepository"
  shows "\<forall>e. fst (DeleteUser_executeHardDelete repo ident s) = Failed e \<longrightarrow>
     e \<in> set raisedAfterRead
     \<or> (\<exists>s1. getById repo ident s = (Inl e, s1))
     \<or> (\<exists>u s1 s2. getById repo ident s = (Inr (Some u), s1) \<and> \<not> isActive u
           \<and> permanentDelete repo ident s1 = (Inl e, s2))"
  by (auto simp add: DeleteUser_executeHardDelete_def raisedAfterRead_def deliver_def
      split: option.splits prod.splits sum.splits if_splits)

text \<open>The other entry points only hand on what their one repository call delivers.\<close>

lemma GetUser_run:
  fixes repo :: "'s IUserRepository"
  shows "requireId ident = None \<longrightarrow>
     GetUser_execute repo ident s =
       (deliver (fst (getById repo ident s)), [GetById ident], snd (getById repo ident s))"
  by (simp add: GetUser_execute_def split: prod.split)

lemma GetUserByEmail_run:
  fixes repo :: "'s IUserRepository"
  shows "0 < length (trim addr) \<and> test emailRegex addr \<longrightarrow>
     GetUser_executeByEmail repo addr s =
       (deliver (fst (getByEmail repo addr s)), [GetByEmail addr],
        snd (getByEmail repo addr s))"
  by (cases "addr = []") (auto simp add: GetUser_executeByEmail_def split: prod.split)

lemma ListUsers_runs:
  fixes repo :: "'s IUserRepository"
  shows "ListUsers_execute repo options s =
       (deliver (fst (getAll repo (validateAndSetDefaults options) s)),
        [GetAll (validateAndSetDefaults options)],
        snd (getAll repo (validateAndSetDefaults options) s))
     \<and> (2 \<le> length (trim query) \<longrightarrow>
        ListUsers_executeSearch repo query limitArg s =
          (deliver (fst (search repo (trim query) (searchLimit limitArg) s)),
           [Search (trim query) (searchLimit limitArg)],
           snd (search repo (trim query) (searchLimit limitArg) s)))
     \<and> (\<not> dateLessEq endDate startDate \<and> \<not> dateLess (TimeValue now) startDate \<longrightarrow>
        ListUsers_executeByDateRange now repo startDate endDate s =
          (deliver (fst (getByDateRange repo startDate endDate s)),
           [GetByDateRange startDate endDate],
           snd (getByDateRange repo startDate endDate s)))
     \<and> ListUsers_executeGetActiveCount repo s =
          (deliver (fst (getActiveUsersCount repo s)), [GetActiveUsersCount],
           snd (getActiveUsersCount repo s))"
  by (cases "query = []")
    (auto simp add: ListUsers_execute_def ListUsers_executeSearch_def
      ListUsers_executeByDateRange_def ListUsers_executeGetActiveCount_def Let_def
      split: prod.split)

text \<open>
  C7, as stated: a failure found after a repository read would carry one of the domain
  error kinds. The soft delete of a user the repository does not find fails with a
  plain \<open>Error\<close>, which has no kind, no code and no user message.
\<close>

theorem UseCase_failure_counterexample:
  "fst (DeleteUser_executeSoftDelete (spyRepository (Inr None) (Inr True) (Inr johnDoe))
       (js ''1'') ())
     = Failed (Error (js ''User not found''))
   \<and> failureKind (fst (DeleteUser_executeSoftDelete
        (spyRepository (Inr None) (Inr True) (Inr johnDoe)) (js ''1'') ())) = None"
  by (simp add: DeleteUser_executeSoftDelete_def spyRepository_def failureKind_def)

text \<open>
  C7, amended. Once the arguments have passed the synchronous checks, the create,
  update and delete use cases end as follows. An error notification of a repository
  call is the error notification of the use case, unchanged, and no further call is
  made. A user that is not found, an inactive user in update and soft delete, an
  active user in hard delete, an email that exists and a name that fails the checks of
  the update each end the run with the plain error of the source, a fixed message
  without code or user message. Conversely every error notification of these use
  cases is one of those plain errors or the error a repository call of this very run
  delivered. The get, list, search, date range and count entry points deliver what
  their one repository call delivers. So a domain error, which has the code and user
  message of its kind and a code that identifies the kind, reaches a caller exactly
  when a repository call of the run delivers it.
\<close>

theorem UseCase_failures_after_read:
  fixes repo :: "'s IUserRepository"
  shows
    "(validateUserData userData = None \<longrightarrow>
       (\<forall>e s1. existsByEmail repo (dto_email userData) s = (Inl e, s1) \<longrightarrow>
          CreateUser_execute repo userData s =
            (Failed e, [ExistsByEmail (dto_email userData)], s1))
       \<and> (\<forall>s1. existsByEmail repo (dto_email userData) s = (Inr True, s1) \<longrightarrow>
          CreateUser_execute repo userData s =
            (Failed (Error (js ''User with this email already exists'')),
             [ExistsByEmail (dto_email userData)], s1))
       \<and> (\<forall>s1 e s2. existsByEmail repo (dto_email userData) s = (Inr False, s1)
              \<and> create repo userData s1 = (Inl e, s2) \<longrightarrow>
          CreateUser_execute repo userData s =
            (Failed e, [ExistsByEmail (dto_email userData), Create userData], s2)))
     \<and> (validateInput ident upd = None \<longrightarrow>
       (\<forall>e s1. getById repo ident s = (Inl e, s1) \<longrightarrow>
          UpdateUser_execute repo ident upd s = (Failed e, [GetById ident], s1))
       \<and> (\<forall>s1. getById repo ident s = (Inr None, s1) \<longrightarrow>
          UpdateUser_execute repo ident upd s =
            (Failed (Error (js ''User not found'')), [GetById ident], s1))
       \<and> (\<forall>u s1. getById repo ident s = (Inr (Some u), s1) \<and> \<not> isActive u \<longrightarrow>
          UpdateUser_execute repo ident upd s =
            (Failed (Error (js ''Cannot update inactive user'')), [GetById ident], s1))
       \<and> (\<forall>u s1 e. getById repo ident s = (Inr (Some u), s1) \<and> isActive u
              \<and> validateUpdateData upd = Some e \<longrightarrow>
          UpdateUser_execute repo ident upd s = (Failed e, [GetById ident], s1)
          \<and> e \<in> set raisedAfterRead)
       \<and> (\<forall>u s1 e s2. getById repo ident s = (Inr (Some u), s1) \<and> isActive u
              \<and> validateUpdateData upd = None \<and> update repo ident upd s1 = (Inl e, s2) \<longrightarrow>
          UpdateUser_execute repo ident upd s =
            (Failed e, [GetById ident, Update ident upd], s2)))
     \<and> (requireId ident = None \<longrightarrow>
       (\<forall>e s1. getById repo ident s = (Inl e, s1) \<longrightarrow>
          DeleteUser_executeSoftDelete repo ident s = (Failed e, [GetById ident], s1))
       \<and> (\<forall>s1. getById repo ident s = (Inr None, s1) \<longrightarrow>
          DeleteUser_executeSoftDelete repo ident s =
            (Failed (Error (js ''User not found'')), [GetById ident], s1))
       \<and> (\<forall>u s1. getById repo ident s = (Inr (Some u), s1) \<and> \<not> isActive u \<longrightarrow>
          DeleteUser_executeSoftDelete repo ident s =
            (Failed (Error (js ''User is already inactive'')), [GetById ident], s1))
       \<and> (\<forall>u s1 e s2. getById repo ident s = (Inr (Some u), s1) \<and> isActive u
              \<and> delete repo ident s1 = (Inl e, s2) \<longrightarrow>
          DeleteUser_executeSoftDelete repo ident s =
            (Failed e, [GetById ident, Delete ident], s2)))
     \<and> (requireId ident = None \<longrightarrow>
       (\<forall>e s1. getById repo ident s = (Inl e, s1) \<longrightarrow>
          DeleteUser_executeHardDelete repo ident s = (Failed e, [GetById ident], s1))
       \<and> (\<forall>s1. getById repo ident s = (Inr None, s1) \<longrightarrow>
          DeleteUser_executeHardDelete repo ident s =
            (Failed (Error (js ''User not found'')), [GetById ident], s1))
       \<and> (\<forall>u s1. getById repo ident s = (Inr (Some u), s1) \<and> isActive u \<longrightarrow>
          DeleteUser_executeHardDelete repo ident s =
            (Failed (Error (js ''Cannot permanently delete active user. Deactivate first.'')),
             [GetById ident], s1))
       \<and> (\<forall>u s1 e s2. getById repo ident s = (Inr (Some u), s1) \<and> \<not> isActive u
              \<and> permanentDelete repo ident s1 = (Inl e, s2) \<longrightarrow>
          DeleteUser_executeHardDelete repo ident s =
            (Failed e, [GetById ident, PermanentDelete ident], s2)))
     \<and> (\<forall>e. fst (CreateUser_execute repo userData s) = Failed e \<longrightarrow>
        e \<in> set raisedAfterRead
        \<or> (\<exists>s1. existsByEmail repo (dto_email userData) s = (Inl e, s1))
        \<or> (\<exists>s1 s2. existsByEmail repo (dto_email userData) s = (Inr False, s1)
              \<and> create repo userData s1 = (Inl e, s2)))
     \<and> (\<forall>e. fst (UpdateUser_execute repo ident upd s) = Failed e \<longrightarrow>
        e \<in> set raisedAfterRead
        \<or> (\<exists>s1. getById repo ident s = (Inl e, s1))
        \<or> (\<exists>u s1 s2. getById repo ident s = (Inr (Some u), s1) \<and> isActive u
              \<and> update repo ident upd s1 = (Inl e, s2)))
     \<and> (\<forall>e. fst (DeleteUser_executeSoftDelete repo ident s) = Failed e \<longrightarrow>
        e \<in> set raisedAfterRead
        \<or> (\<exists>s1. getById repo ident s = (Inl e, s1))
        \<or> (\<exists>u s1 s2. getById repo ident s = (Inr (Some u), s1) \<and> isActive u
              \<and> delete repo ident s1 = (Inl e, s2)))
     \<and> (\<forall>e. fst (DeleteUser_executeHardDelete repo ident s) = Failed e \<longrightarrow>
        e \<in> set raisedAfterRead
        \<or> (\<exists>s1. getById repo ident s = (Inl e, s1))
        \<or> (\<exists>u s1 s2. getById repo ident s = (Inr (Some u), s1) \<and> \<not> isActive u
              \<and> permanentDelete repo ident s1 = (Inl e, s2)))
     \<and> (requireId ident = None \<longrightarrow>
        GetUser_execute repo ident s =
          (deliver (fst (getById repo ident s)), [GetById ident], snd (getById repo ident s)))
     \<and> (0 < length (trim addr) \<and> test emailRegex addr \<longrightarrow>
        GetUser_executeByEmail repo addr s =
          (deliver (fst (getByEmail repo addr s)), [GetByEmail addr],
           snd (getByEmail repo addr s)))
     \<and> (ListUsers_execute repo options s =
          (deliver (fst (getAll repo (validateAndSetDefaults options) s)),
           [GetAll (validateAndSetDefaults options)],
           snd (getAll repo (validateAndSetDefaults options) s))
        \<and> (2 \<le> length (trim query) \<longrightarrow>
           ListUsers_executeSearch repo query limitArg s =
             (deliver (fst (search repo (trim query) (searchLimit limitArg) s)),
              [Search (trim query) (searchLimit limitArg)],
              snd (search repo (trim query) (searchLimit limitArg) s)))
        \<and> (\<not> dateLessEq endDate startDate \<and> \<not> dateLess (TimeValue now) startDate \<longrightarrow>
           ListUsers_executeByDateRange now repo startDate endDate s =
             (deliver (fst (getByDateRange repo startDate endDate s)),
              [GetByDateRange startDate endDate],
              snd (getByDateRange repo startDate endDate s)))
        \<and> ListUsers_executeGetActiveCount repo s =
             (deliver (fst (getActiveUsersCount repo s)), [GetActiveUsersCount],
              snd (getActiveUsersCount repo s)))
     \<and> (\<forall>e. deliver (Inl e :: error + User) = Failed e)
     \<and> list_all (\<lambda>e. domainKind e = None) raisedAfterRead
     \<and> (\<forall>d. domainKind (Domain d) = Some (kindOf d))
     \<and> (\<forall>k k'. code k = code k' \<longrightarrow> k = k')"
proof -
  have kinds: "\<forall>d. domainKind (Domain d) = Some (kindOf d)" by simp
  have codes: "\<forall>k k'. code k = code k' \<longrightarrow> k = k'"
    using code_identifies_kind by blast
  have del: "\<forall>e. deliver (Inl e :: error + User) = Failed e"
    by (simp add: deliver_def)
  show ?thesis
    by (rule conjI [OF CreateUser_run] conjI [OF UpdateUser_run] conjI [OF SoftDelete_run]
        conjI [OF HardDelete_run] conjI [OF CreateUser_failed] conjI [OF UpdateUser_failed]
        conjI [OF SoftDelete_failed] conjI [OF HardDelete_failed] conjI [OF GetUser_run]
        conjI [OF GetUserByEmail_run] conjI [OF ListUsers_runs] conjI [OF del]
        conjI [OF raisedAfterRead_untyped] conjI [OF kinds] codes)+
qed

theorem UseCase_failures_after_read_witness:
  "DeleteUser_executeSoftDelete (spyRepository (Inl connectionLost) (Inr True) (Inr johnDoe))
       (js ''1'') ()
     = (Failed connectionLost, [GetById (js ''1'')], ())
   \<and> domainKind connectionLost = Some Network
   \<and> DeleteUser_executeHardDelete (spyRepository (Inr (Some johnDoe)) (Inr True) (Inr johnDoe))
       (js ''1'') ()
     = (Failed (Error (js ''Cannot permanently delete active user. Deactivate first.'')),
        [GetById (js ''1'')], ())
   \<and> domainKind (Error (js ''Cannot permanently delete active user. Deactivate first.'')) = None"
proof -
  have lost: "getById (spyRepository (Inl connectionLost) (Inr True) (Inr johnDoe)) (js ''1'') ()
      = (Inl connectionLost, ())"
    by (simp add: spyRepository_def)
  have found: "getById (spyRepository (Inr (Some johnDoe)) (Inr True) (Inr johnDoe)) (js ''1'') ()
      = (Inr (Some johnDoe), ())"
    by (simp add: spyRepository_def)
  have active: "isActive johnDoe"
    by (simp add: johnDoe_def)
  have ident: "requireId (js ''1'') = None"
    by simp
  have soft: "DeleteUser_executeSoftDelete
      (spyRepository (Inl connectionLost) (Inr True) (Inr johnDoe)) (js ''1'') ()
     = (Failed connectionLost, [GetById (js ''1'')], ())"
    by (rule UseCase_failures_after_read
      [where repo = "spyRepository (Inl connectionLost) (Inr True) (Inr johnDoe)"
        and ident = "js ''1''" and s = "()",
        THEN conjunct2, THEN conjunct2, THEN conjunct1, THEN mp, OF ident,
        THEN conjunct1, rule_format, OF lost])
  have hard: "DeleteUser_executeHardDelete
      (spyRepository (Inr (Some johnDoe)) (Inr True) (Inr johnDoe)) (js ''1'') ()
     = (Failed (Error (js ''Cannot permanently delete active user. Deactivate first.'')),
        [GetById (js ''1'')], ())"
    by (rule UseCase_failures_after_read
      [where repo = "spyRepository (Inr (Some johnDoe)) (Inr True) (Inr johnDoe)"
        and ident = "js ''1''" and s = "()",
        THEN conjunct2, THEN conjunct2, THEN conjunct2, THEN conjunct1, THEN mp, OF ident,
        THEN conjunct2, THEN conjunct2, THEN conjunct1, rule_format,
        OF conjI [OF found active]])
  from soft hard show ?thesis
    by (simp add: connectionLost_def)
qed

section \<open>Synchronous validation\<close>

lemma requireId_blank: "length (trim ident) = 0 \<Longrightarrow> requireId ident = Some (Error (js ''User ID is required''))"
  by (simp add: requireId_def)

lemma validateUserData_rejects:
  "\<not> test emailRegex (dto_email userData) \<or> length (trim (dto_firstName userData)) < 2
   \<or> length (trim (dto_lastName userData)) < 2 \<or> \<not> test nameRegex (dto_firstName userData)
   \<or> \<not> test nameRegex (dto_lastName userData)
   \<Longrightarrow> validateUserData userData \<noteq> None"
  by (auto simp add: validateUserData_def)

lemma thrown_CreateUser:
  "validateUserData userData = Some e \<Longrightarrow> CreateUser_execute repo userData s = (Thrown e, [], s)"
  by (simp add: CreateUser_execute_def)

lemma thrown_requireId:
  "requireId ident = Some e \<Longrightarrow>
   GetUser_execute repo ident s = (Thrown e, [], s)
   \<and> DeleteUser_executeSoftDelete repo ident s = (Thrown e, [], s)
   \<and> DeleteUser_executeHardDelete repo ident s = (Thrown e, [], s)"
  by (simp add: GetUser_execute_def DeleteUser_executeSoftDelete_def
      DeleteUser_executeHardDelete_def)

lemma thrown_executeByEmail:
  "length (trim addr) = 0 \<or> \<not> test emailRegex addr \<Longrightarrow>
   \<exists>err. GetUser_executeByEmail repo addr s = (Thrown err, [], s)"
  by (auto simp add: GetUser_executeByEmail_def)

lemma thrown_UpdateUser:
  "validateInput ident upd = Some e \<Longrightarrow> UpdateUser_execute repo ident upd s = (Thrown e, [], s)"
  by (simp add: UpdateUser_execute_def)

lemma validateInput_rejects:
  "length (trim ident) = 0 \<or> (upd_firstName upd = Absent \<and> upd_lastName upd = Absent) \<Longrightarrow>
   validateInput ident upd \<noteq> None"
  by (auto simp add: validateInput_def)

lemma thrown_executeSearch:
  "length (trim query) < 2 \<Longrightarrow>
   \<exists>err. ListUsers_executeSearch repo query limitArg s = (Thrown err, [], s)"
  by (auto simp add: ListUsers_executeSearch_def)

lemma thrown_executeByDateRange:
  "dateLessEq endDate startDate \<or> dateLess (TimeValue now) startDate \<Longrightarrow>
   \<exists>err. ListUsers_executeByDateRange now repo startDate endDate s = (Thrown err, [], s)"
  by (auto simp add: ListUsers_executeByDateRange_def)

lemma UpdateUser_names_after_read:
  fixes repo :: "'s IUserRepository"
  assumes "validateInput ident upd = None"
  shows "(\<forall>e. fst (UpdateUser_execute repo ident upd s) \<noteq> Thrown e)
     \<and> hd (fst (snd (UpdateUser_execute repo ident upd s))) = GetById ident
     \<and> (\<forall>u s1 e. getById repo ident s = (Inr (Some u), s1) \<and> isActive u
            \<and> validateUpdateData upd = Some e \<longrightarrow>
          UpdateUser_execute repo ident upd s = (Failed e, [GetById ident], s1))"
  using assms
  by (auto simp add: UpdateUser_execute_def deliver_def
      split: option.splits prod.splits sum.splits if_splits)

lemma thrown_no_call:
  fixes repo :: "'s IUserRepository"
  shows "fst (CreateUser_execute repo userData s) = Thrown e \<Longrightarrow>
      snd (CreateUser_execute repo userData s) = ([], s)"
    "fst (GetUser_execute repo ident s) = Thrown e \<Longrightarrow>
      snd (GetUser_execute repo ident s) = ([], s)"
    "fst (GetUser_executeByEmail repo addr s) = Thrown e \<Longrightarrow>
      snd (GetUser_executeByEmail repo addr s) = ([], s)"
    "fst (UpdateUser_execute repo ident upd s) = Thrown e \<Longrightarrow>
      snd (UpdateUser_execute repo ident upd s) = ([], s)"
    "fst (DeleteUser_executeSoftDelete repo ident s) = Thrown e \<Longrightarrow>
      snd (DeleteUser_executeSoftDelete repo ident s) = ([], s)"
    "fst (DeleteUser_executeHardDelete repo ident s) = Thrown e \<Longrightarrow>
      snd (DeleteUser_executeHardDelete repo ident s) = ([], s)"
    "fst (ListUsers_executeSearch repo query limitArg s) = Thrown e \<Longrightarrow>
      snd (ListUsers_executeSearch repo query limitArg s) = ([], s)"
    "fst (ListUsers_executeByDateRange now repo startDate endDate s) = Thrown e \<Longrightarrow>
      snd (ListUsers_executeByDateRange now repo startDate endDate s) = ([], s)"
    "fst (ListUsers_execute repo options s) \<noteq> Thrown e"
    "fst (ListUsers_executeGetActiveCount repo s) \<noteq> Thrown e"
  by (auto simp add: CreateUser_execute_def GetUser_execute_def GetUser_executeByEmail_def
      UpdateUser_execute_def DeleteUser_executeSoftDelete_def DeleteUser_executeHardDelete_def
      ListUsers_executeSearch_def ListUsers_executeByDateRange_def ListUsers_execute_def
      ListUsers_executeGetActiveCount_def deliver_def Let_def
      split: option.splits prod.splits sum.splits if_splits)

text \<open>
  C8, as stated: the update use case would raise a too-short name without first calling
  \<open>getById\<close>. With a valid id and a one-letter first name it calls \<open>getById\<close>, and the
  failure is an error notification of the returned Observable, not a thrown error.
\<close>

theorem UpdateUser_names_counterexample:
  "UpdateUser_execute (spyRepository (Inr (Some johnDoe)) (Inr True) (Inr johnDoe))
       (js ''1'') shortFirstName ()
     = (Failed (Error (js ''First name must be at least 2 characters long'')),
        [GetById (js ''1'')], ())"
  by (simp add: UpdateUser_execute_def spyRepository_def johnDoe_def shortFirstName_def
      validateInput_def validateUpdateData_def validateUpdateName_def char_class_defs)

text \<open>
  C8, amended. What \<open>validateUserData\<close> rejects (a malformed email, a too-short or
  non-letter name), an empty id in the get, update and delete use cases, an empty or
  malformed email in the lookup by email, an empty update payload, a too-short search
  query and a date range that is out of order or starts in the future are thrown
  synchronously, with no repository call and the repository untouched; whenever any
  entry point throws, it has made no repository call. The update use case is the
  exception for names: once id and payload have passed, it never throws, its first call
  is \<open>getById\<close>, and a name that fails validation is reported as an error notification
  after an active user was fetched.
\<close>

theorem validation_before_repository:
  fixes repo :: "'s IUserRepository"
  shows
    "(\<forall>e. validateUserData userData = Some e \<longrightarrow>
        CreateUser_execute repo userData s = (Thrown e, [], s))
     \<and> (\<not> test emailRegex (dto_email userData) \<or> length (trim (dto_firstName userData)) < 2
         \<or> length (trim (dto_lastName userData)) < 2
         \<or> \<not> test nameRegex (dto_firstName userData)
         \<or> \<not> test nameRegex (dto_lastName userData) \<longrightarrow>
        validateUserData userData \<noteq> None)
     \<and> (\<forall>e. requireId ident = Some e \<longrightarrow>
        GetUser_execute repo ident s = (Thrown e, [], s)
        \<and> DeleteUser_executeSoftDelete repo ident s = (Thrown e, [], s)
        \<and> DeleteUser_executeHardDelete repo ident s = (Thrown e, [], s))
     \<and> (length (trim ident) = 0 \<longrightarrow> requireId ident \<noteq> None \<and> validateInput ident upd \<noteq> None)
     \<and> (length (trim addr) = 0 \<or> \<not> test emailRegex addr \<longrightarrow>
        (\<exists>err. GetUser_executeByEmail repo addr s = (Thrown err, [], s)))
     \<and> (\<forall>e. validateInput ident upd = Some e \<longrightarrow>
        UpdateUser_execute repo ident upd s = (Thrown e, [], s))
     \<and> (upd_firstName upd = Absent \<and> upd_lastName upd = Absent \<longrightarrow>
        validateInput ident upd \<noteq> None)
     \<and> (length (trim query) < 2 \<longrightarrow>
        (\<exists>err. ListUsers_executeSearch repo query limitArg s = (Thrown err, [], s)))
     \<and> (dateLessEq endDate startDate \<or> dateLess (TimeValue now) startDate \<longrightarrow>
        (\<exists>err. ListUsers_executeByDateRange now repo startDate endDate s = (Thrown err, [], s)))
     \<and> (validateInput ident upd = None \<longrightarrow>
        (\<forall>e. fst (UpdateUser_execute repo ident upd s) \<noteq> Thrown e)
        \<and> hd (fst (snd (UpdateUser_execute repo ident upd s))) = GetById ident
        \<and> (\<forall>u s1 e. getById repo ident s = (Inr (Some u), s1) \<and> isActive u
               \<and> validateUpdateData upd = Some e \<longrightarrow>
             UpdateUser_execute repo ident upd s = (Failed e, [GetById ident], s1)))
     \<and> (\<forall>e. (fst (CreateUser_execute repo userData s) = Thrown e \<longrightarrow>
              snd (CreateUser_execute repo userData s) = ([], s))
          \<and> (fst (GetUser_execute repo ident s) = Thrown e \<longrightarrow>
              snd (GetUser_execute repo ident s) = ([], s))
          \<and> (fst (GetUser_executeByEmail repo addr s) = Thrown e \<longrightarrow>
              snd (GetUser_executeByEmail repo addr s) = ([], s))
          \<and> (fst (UpdateUser_execute repo ident upd s) = Thrown e \<longrightarrow>
              snd (UpdateUser_execute repo ident upd s) = ([], s))
          \<and> (fst (DeleteUser_executeSoftDelete repo ident s) = Thrown e \<longrightarrow>
              snd (DeleteUser_executeSoftDelete repo ident s) = ([], s))
          \<and> (fst (DeleteUser_executeHardDelete repo ident s) = Thrown e \<longrightarrow>
              snd (DeleteUser_executeHardDelete repo ident s) = ([], s))
          \<and> (fst (ListUsers_executeSearch repo query limitArg s) = Thrown e \<longrightarrow>
              snd (ListUsers_executeSearch repo query limitArg s) = ([], s))
          \<and> (fst (ListUsers_executeByDateRange now repo startDate endDate s) = Thrown e \<longrightarrow>
              snd (ListUsers_executeByDateRange now repo startDate endDate s) = ([], s))
          \<and> fst (ListUsers_execute repo options s) \<noteq> Thrown e
          \<and> fst (ListUsers_executeGetActiveCount repo s) \<noteq> Thrown e)"
  apply (intro conjI allI impI)
  subgoal by (rule thrown_CreateUser)
  subgoal by (rule validateUserData_rejects)
  subgoal by (simp add: thrown_requireId)
  subgoal by (simp add: thrown_requireId)
  subgoal by (simp add: thrown_requireId)
  subgoal by (simp add: requireId_blank)
  subgoal by (rule validateInput_rejects) simp
  subgoal by (rule thrown_executeByEmail)
  subgoal by (rule thrown_UpdateUser)
  subgoal by (rule validateInput_rejects) simp
  subgoal by (rule thrown_executeSearch)
  subgoal by (rule thrown_executeByDateRange)
  subgoal using UpdateUser_names_after_read [where repo = repo and ident = ident and upd = upd and s = s] by blast
  subgoal using UpdateUser_names_after_read [where repo = repo and ident = ident and upd = upd and s = s] by blast
  subgoal using UpdateUser_names_after_read [where repo = repo and ident = ident and upd = upd and s = s] by blast
  subgoal by (rule thrown_no_call)
  subgoal by (rule thrown_no_call)
  subgoal by (rule thrown_no_call)
  subgoal by (rule thrown_no_call)
  subgoal by (rule thrown_no_call)
  subgoal by (rule thrown_no_call)
  subgoal by (rule thrown_no_call)
  subgoal by (rule thrown_no_call)
  subgoal by (rule thrown_no_call)
  subgoal by (rule thrown_no_call)
  done


theorem validation_before_repository_witness:
  "CreateUser_execute (spyRepository (Inr (Some johnDoe)) (Inr True) (Inr johnDoe))
       invalidEmailData ()
     = (Thrown (Error (js ''Invalid email format'')), [], ())
   \<and> DeleteUser_executeSoftDelete (spyRepository (Inr (Some johnDoe)) (Inr True) (Inr johnDoe))
       (js '' '') ()
     = (Thrown (Error (js ''User ID is required'')), [], ())
   \<and> UpdateUser_execute (spyRepository (Inr (Some johnDoe)) (Inr True) (Inr johnDoe))
       (js ''1'') shortFirstName ()
     = (Failed (Error (js ''First name must be at least 2 characters long'')),
        [GetById (js ''1'')], ())"
proof -
  have bad: "validateUserData invalidEmailData = Some (Error (js ''Invalid email format''))"
    by (simp add: validateUserData_def invalidEmailData_def char_class_defs)
  have blank: "requireId (js '' '') = Some (Error (js ''User ID is required''))"
    by (simp add: requireId_def char_class_defs)
  have input: "validateInput (js ''1'') shortFirstName = None"
    by (simp add: validateInput_def shortFirstName_def char_class_defs)
  have name: "validateUpdateData shortFirstName =
      Some (Error (js ''First name must be at least 2 characters long''))"
    by (simp add: validateUpdateData_def validateUpdateName_def shortFirstName_def
        char_class_defs)
  have fetched: "getById (spyRepository (Inr (Some johnDoe)) (Inr True) (Inr johnDoe)) (js ''1'') ()
      = (Inr (Some johnDoe), ())"
    by (simp add: spyRepository_def)
  have active: "isActive johnDoe"
    by (simp add: johnDoe_def)
  show ?thesis
    using validation_before_repository
      [where repo = "spyRepository (Inr (Some johnDoe)) (Inr True) (Inr johnDoe)"
        and userData = invalidEmailData and s = "()" and ident = "js ''1''"
        and upd = shortFirstName]
      validation_before_repository
      [where repo = "spyRepository (Inr (Some johnDoe)) (Inr True) (Inr johnDoe)"
        and s = "()" and ident = "js '' ''"]
      bad blank input name fetched active
    by simp
qed

section \<open>The ISO 8601 encoding round trip\<close>

text \<open>
  The time values of the whole range survive \<open>toISOString\<close> followed by
  \<open>new Date(string)\<close>. First the calendar: a year has 365 or 366 days, and
  \<open>YearFromDay\<close> is the year a day falls in.
\<close>

lemma div_succ:
  fixes a k :: int
  assumes "1 < k"
  shows "(a + 1) div k = a div k + (if (a + 1) mod k = 0 then 1 else 0)"
proof -
  have lo: "0 \<le> a mod k" and hi: "a mod k < k" using assms by simp_all
  have one: "1 div k = 0" "1 mod k = 1" using assms by simp_all
  have d: "(a + 1) div k = a div k + (a mod k + 1) div k"
    using div_add1_eq [of a 1 k] one by simp
  have m: "(a + 1) mod k = (a mod k + 1) mod k"
    using mod_add_eq [of a k 1] one by simp
  show ?thesis
  proof (cases "a mod k + 1 = k")
    case True
    then show ?thesis using d m assms by simp
  next
    case False
    then have small: "a mod k + 1 < k" using hi by simp
    then have "(a mod k + 1) div k = 0" "(a mod k + 1) mod k = a mod k + 1"
      using lo by (simp_all add: div_pos_pos_trivial mod_pos_pos_trivial)
    then show ?thesis using d m lo by simp
  qed
qed

lemma mod_shift:
  fixes y :: int
  shows "(y - 1968) mod 4 = y mod 4" "(y - 1900) mod 100 = y mod 100"
    "(y - 1600) mod 400 = y mod 400"
proof -
  have "(y + 4 * (- 492)) mod 4 = y mod 4" by (rule mod_mult_self2)
  then show "(y - 1968) mod 4 = y mod 4" by simp
  have "(y + 100 * (- 19)) mod 100 = y mod 100" by (rule mod_mult_self2)
  then show "(y - 1900) mod 100 = y mod 100" by simp
  have "(y + 400 * (- 4)) mod 400 = y mod 400" by (rule mod_mult_self2)
  then show "(y - 1600) mod 400 = y mod 400" by simp
qed

lemma mod_100_4: "y mod 100 = 0 \<Longrightarrow> y mod 4 = 0" for y :: int
proof -
  assume "y mod 100 = 0"
  then have "(100::int) dvd y" by (rule mod_0_imp_dvd)
  moreover have "(4::int) dvd 100" by simp
  ultimately have "4 dvd y" by (rule dvd_trans [rotated])
  then show ?thesis by (rule dvd_imp_mod_0)
qed

lemma mod_400_100: "y mod 400 = 0 \<Longrightarrow> y mod 100 = 0" for y :: int
proof -
  assume "y mod 400 = 0"
  then have "(400::int) dvd y" by (rule mod_0_imp_dvd)
  moreover have "(100::int) dvd 400" by simp
  ultimately have "100 dvd y" by (rule dvd_trans [rotated])
  then show ?thesis by (rule dvd_imp_mod_0)
qed

lemma DayFromYear_step: "DayFromYear (y + 1) = DayFromYear y + DaysInYear y"
proof -
  have a: "(y - 1968) div 4 = (y - 1969) div 4 + (if y mod 4 = 0 then 1 else 0)"
    using div_succ [of 4 "y - 1969"] mod_shift(1) [of y] by simp
  have b: "(y - 1900) div 100 = (y - 1901) div 100 + (if y mod 100 = 0 then 1 else 0)"
    using div_succ [of 100 "y - 1901"] mod_shift(2) [of y] by simp
  have c: "(y - 1600) div 400 = (y - 1601) div 400 + (if y mod 400 = 0 then 1 else 0)"
    using div_succ [of 400 "y - 1601"] mod_shift(3) [of y] by simp
  have e: "DayFromYear (y + 1) =
      365 * (y - 1969) + (y - 1968) div 4 - (y - 1900) div 100 + (y - 1600) div 400"
    by (simp add: DayFromYear_def)
  have f: "DayFromYear y =
      365 * (y - 1970) + (y - 1969) div 4 - (y - 1901) div 100 + (y - 1601) div 400"
    by (simp add: DayFromYear_def)
  show ?thesis
  proof (cases "y mod 4 = 0")
    case False
    then have "y mod 100 \<noteq> 0" "y mod 400 \<noteq> 0"
      using mod_100_4 [of y] mod_400_100 [of y] by auto
    with False show ?thesis
      unfolding e f a b c DaysInYear_def by simp
  next
    case four: True
    show ?thesis
    proof (cases "y mod 100 = 0")
      case False
      then have "y mod 400 \<noteq> 0" using mod_400_100 [of y] by auto
      with four False show ?thesis
        unfolding e f a b c DaysInYear_def by simp
    next
      case True
      with four show ?thesis
        unfolding e f a b c DaysInYear_def by simp
    qed
  qed
qed

text \<open>
  \<open>DayFromYear y\<close> stays within two days of \<open>365.2425 * (y - 1970)\<close>, so the year
  estimated from the mean length of a year is off by at most one, and the correction in
  \<open>YearFromDay\<close> lands on the year whose days contain \<open>d\<close>.
\<close>

lemma div_bounds:
  fixes a k :: int
  assumes "0 < k"
  shows "k * (a div k) \<le> a" "a < k * (a div k) + k"
proof -
  have "k * (a div k) + a mod k = a" by simp
  moreover have "0 \<le> a mod k" "a mod k < k" using assms by simp_all
  ultimately show "k * (a div k) \<le> a" "a < k * (a div k) + k" by linarith+
qed

lemma DayFromYear_bounds:
  "400 * DayFromYear y \<le> 146097 * y - 287810501"
  "146097 * y - 287811596 \<le> 400 * DayFromYear y"
proof -
  define A where "A = (y - 1969) div 4"
  define B where "B = (y - 1901) div 100"
  define C where "C = (y - 1601) div 400"
  have a: "4 * A \<le> y - 1969" "y - 1969 < 4 * A + 4"
    unfolding A_def by (rule div_bounds; simp)+
  have b: "100 * B \<le> y - 1901" "y - 1901 < 100 * B + 100"
    unfolding B_def by (rule div_bounds; simp)+
  have c: "400 * C \<le> y - 1601" "y - 1601 < 400 * C + 400"
    unfolding C_def by (rule div_bounds; simp)+
  have d: "DayFromYear y = 365 * y - 719050 + A - B + C"
    by (simp add: DayFromYear_def A_def B_def C_def)
  show "400 * DayFromYear y \<le> 146097 * y - 287810501"
    using a b c d by linarith
  show "146097 * y - 287811596 \<le> 400 * DayFromYear y"
    using a b c d by linarith
qed

lemma YearFromDay_correct:
  "DayFromYear (YearFromDay d) \<le> d" "d < DayFromYear (YearFromDay d + 1)"
proof -
  define Q where "Q = (400 * d) div 146097"
  define y where "y = 1970 + Q"
  define z where "z = y - 1"
  define w where "w = y + 2"
  have q: "146097 * Q \<le> 400 * d" "400 * d < 146097 * Q + 146097"
    unfolding Q_def by (rule div_bounds; simp)+
  have zw: "z = 1969 + Q" "w = 1972 + Q"
    by (simp_all add: z_def w_def y_def)
  have "DayFromYear z \<le> d"
    using DayFromYear_bounds(1) [of z] q zw by linarith
  then have lo: "DayFromYear (y - 1) \<le> d" by (simp add: z_def)
  have "d < DayFromYear w"
    using DayFromYear_bounds(2) [of w] q zw by linarith
  then have hi: "d < DayFromYear (y + 2)" by (simp add: w_def)
  have yfd: "YearFromDay d =
      (if d < DayFromYear y then y - 1 else if DayFromYear (y + 1) \<le> d then y + 1 else y)"
    by (simp add: YearFromDay_def y_def Q_def Let_def)
  show "DayFromYear (YearFromDay d) \<le> d"
    using lo unfolding yfd by auto
  show "d < DayFromYear (YearFromDay d + 1)"
  proof (cases "d < DayFromYear y")
    case True
    then have "YearFromDay d + 1 = y" by (simp add: yfd)
    with True show ?thesis by simp
  next
    case False
    show ?thesis
    proof (cases "DayFromYear (y + 1) \<le> d")
      case True
      with False have "YearFromDay d + 1 = y + 2" by (simp add: yfd)
      with hi show ?thesis by (simp add: add.commute)
    next
      case over: False
      with False have "YearFromDay d + 1 = y + 1" by (simp add: yfd)
      with over show ?thesis by simp
    qed
  qed
qed

lemma YearFromDay_range:
  assumes "- 100000000 \<le> d" "d \<le> 100000000"
  shows "- 271822 \<le> YearFromDay d" "YearFromDay d \<le> 275761"
proof -
  define Q where "Q = (400 * d) div 146097"
  define y where "y = 1970 + Q"
  have q: "146097 * Q \<le> 400 * d" "400 * d < 146097 * Q + 146097"
    unfolding Q_def by (rule div_bounds; simp)+
  have "- 271821 \<le> y" "y \<le> 275760"
    using q assms unfolding y_def by linarith+
  moreover have "YearFromDay d = y - 1 \<or> YearFromDay d = y + 1 \<or> YearFromDay d = y"
    by (simp add: YearFromDay_def y_def Q_def Let_def)
  ultimately show "- 271822 \<le> YearFromDay d" "YearFromDay d \<le> 275761" by linarith+
qed

text \<open>Month and day of the month are legal fields, and \<open>MakeDay\<close> maps them back to the day.\<close>

lemma leapDays_cases: "leapDays y = 0 \<or> leapDays y = 1"
  by (simp add: leapDays_def)

lemma DaysInYear_leap: "DaysInYear y = 365 + leapDays y"
  by (simp add: leapDays_def DaysInYear_def)

lemma DayWithinYear_range:
  "0 \<le> DayWithinYear t" "DayWithinYear t < 365 + InLeapYear t"
proof -
  note c = YearFromDay_correct [of "Day t"]
  show "0 \<le> DayWithinYear t"
    using c(1) by (simp add: DayWithinYear_def YearFromTime_def)
  show "DayWithinYear t < 365 + InLeapYear t"
    using c(2) DayFromYear_step [of "YearFromDay (Day t)"] DaysInYear_leap [of "YearFromDay (Day t)"]
    by (simp add: DayWithinYear_def YearFromTime_def InLeapYear_def)
qed

lemma month_fields:
  "0 \<le> MonthFromTime t \<and> MonthFromTime t \<le> 11 \<and> 1 \<le> DateFromTime t
   \<and> DateFromTime t \<le> DaysInMonth (MonthFromTime t) (InLeapYear t)
   \<and> daysBeforeMonth (MonthFromTime t) (InLeapYear t) + DateFromTime t - 1 = DayWithinYear t"
proof -
  define d where "d = DayWithinYear t"
  define l where "l = InLeapYear t"
  have r: "0 \<le> d" "d < 365 + l" "l = 0 \<or> l = 1"
    using DayWithinYear_range [of t] leapDays_cases [of "YearFromTime t"]
    by (simp_all add: d_def l_def InLeapYear_def)
  have M: "MonthFromTime t =
     (if d < 31 then 0 else if d < 59 + l then 1 else if d < 90 + l then 2
      else if d < 120 + l then 3 else if d < 151 + l then 4 else if d < 181 + l then 5
      else if d < 212 + l then 6 else if d < 243 + l then 7 else if d < 273 + l then 8
      else if d < 304 + l then 9 else if d < 334 + l then 10 else 11)"
    by (simp add: MonthFromTime_def Let_def d_def l_def)
  have D: "DateFromTime t =
     (if MonthFromTime t = 0 then d + 1 else if MonthFromTime t = 1 then d - 30
      else if MonthFromTime t = 2 then d - 58 - l
      else if MonthFromTime t = 3 then d - 89 - l else if MonthFromTime t = 4 then d - 119 - l
      else if MonthFromTime t = 5 then d - 150 - l else if MonthFromTime t = 6 then d - 180 - l
      else if MonthFromTime t = 7 then d - 211 - l else if MonthFromTime t = 8 then d - 242 - l
      else if MonthFromTime t = 9 then d - 272 - l else if MonthFromTime t = 10 then d - 303 - l
      else d - 333 - l)"
    by (simp add: DateFromTime_def Let_def d_def l_def)
  consider
    (c0) "d < 31"
    | (c1) "\<not> d < 31" "d < 59 + l"
    | (c2) "\<not> d < 31" "\<not> d < 59 + l" "d < 90 + l"
    | (c3) "\<not> d < 31" "\<not> d < 59 + l" "\<not> d < 90 + l" "d < 120 + l"
    | (c4) "\<not> d < 31" "\<not> d < 59 + l" "\<not> d < 90 + l" "\<not> d < 120 + l" "d < 151 + l"
    | (c5) "\<not> d < 31" "\<not> d < 59 + l" "\<not> d < 90 + l" "\<not> d < 120 + l" "\<not> d < 151 + l" "d < 181 + l"
    | (c6) "\<not> d < 31" "\<not> d < 59 + l" "\<not> d < 90 + l" "\<not> d < 120 + l" "\<not> d < 151 + l" "\<not> d < 181 + l" "d < 212 + l"
    | (c7) "\<not> d < 31" "\<not> d < 59 + l" "\<not> d < 90 + l" "\<not> d < 120 + l" "\<not> d < 151 + l" "\<not> d < 181 + l" "\<not> d < 212 + l" "d < 243 + l"
    | (c8) "\<not> d < 31" "\<not> d < 59 + l" "\<not> d < 90 + l" "\<not> d < 120 + l" "\<not> d < 151 + l" "\<not> d < 181 + l" "\<not> d < 212 + l" "\<not> d < 243 + l" "d < 273 + l"
    | (c9) "\<not> d < 31" "\<not> d < 59 + l" "\<not> d < 90 + l" "\<not> d < 120 + l" "\<not> d < 151 + l" "\<not> d < 181 + l" "\<not> d < 212 + l" "\<not> d < 243 + l" "\<not> d < 273 + l" "d < 304 + l"
    | (c10) "\<not> d < 31" "\<not> d < 59 + l" "\<not> d < 90 + l" "\<not> d < 120 + l" "\<not> d < 151 + l" "\<not> d < 181 + l" "\<not> d < 212 + l" "\<not> d < 243 + l" "\<not> d < 273 + l" "\<not> d < 304 + l" "d < 334 + l"
    | (c11) "\<not> d < 31" "\<not> d < 59 + l" "\<not> d < 90 + l" "\<not> d < 120 + l" "\<not> d < 151 + l" "\<not> d < 181 + l" "\<not> d < 212 + l" "\<not> d < 243 + l" "\<not> d < 273 + l" "\<not> d < 304 + l" "\<not> d < 334 + l"
    by blast
  then show ?thesis
  proof cases
    case c0
    then have m: "MonthFromTime t = 0" by (simp add: M)
    have dt: "DateFromTime t = d + 1" by (simp add: D m)
    show ?thesis
      unfolding m dt d_def [symmetric] l_def [symmetric]
      using c0 r by (auto simp add: DaysInMonth_def daysBeforeMonth_def)
  next
    case c1
    then have m: "MonthFromTime t = 1" by (simp add: M)
    have dt: "DateFromTime t = d - 30" by (simp add: D m)
    show ?thesis
      unfolding m dt d_def [symmetric] l_def [symmetric]
      using c1 r by (auto simp add: DaysInMonth_def daysBeforeMonth_def)
  next
    case c2
    then have m: "MonthFromTime t = 2" by (simp add: M)
    have dt: "DateFromTime t = d - 58 - l" by (simp add: D m)
    show ?thesis
      unfolding m dt d_def [symmetric] l_def [symmetric]
      using c2 r by (auto simp add: DaysInMonth_def daysBeforeMonth_def)
  next
    case c3
    then have m: "MonthFromTime t = 3" by (simp add: M)
    have dt: "DateFromTime t = d - 89 - l" by (simp add: D m)
    show ?thesis
      unfolding m dt d_def [symmetric] l_def [symmetric]
      using c3 r by (auto simp add: DaysInMonth_def daysBeforeMonth_def)
  next
    case c4
    then have m: "MonthFromTime t = 4" by (simp add: M)
    have dt: "DateFromTime t = d - 119 - l" by (simp add: D m)
    show ?thesis
      unfolding m dt d_def [symmetric] l_def [symmetric]
      using c4 r by (auto simp add: DaysInMonth_def daysBeforeMonth_def)
  next
    case c5
    then have m: "MonthFromTime t = 5" by (simp add: M)
    have dt: "DateFromTime t = d - 150 - l" by (simp add: D m)
    show ?thesis
      unfolding m dt d_def [symmetric] l_def [symmetric]
      using c5 r by (auto simp add: DaysInMonth_def daysBeforeMonth_def)
  next
    case c6
    then have m: "MonthFromTime t = 6" by (simp add: M)
    have dt: "DateFromTime t = d - 180 - l" by (simp add: D m)
    show ?thesis
      unfolding m dt d_def [symmetric] l_def [symmetric]
      using c6 r by (auto simp add: DaysInMonth_def daysBeforeMonth_def)
  next
    case c7
    then have m: "MonthFromTime t = 7" by (simp add: M)
    have dt: "DateFromTime t = d - 211 - l" by (simp add: D m)
    show ?thesis
      unfolding m dt d_def [symmetric] l_def [symmetric]
      using c7 r by (auto simp add: DaysInMonth_def daysBeforeMonth_def)
  next
    case c8
    then have m: "MonthFromTime t = 8" by (simp add: M)
    have dt: "DateFromTime t = d - 242 - l" by (simp add: D m)
    show ?thesis
      unfolding m dt d_def [symmetric] l_def [symmetric]
      using c8 r by (auto simp add: DaysInMonth_def daysBeforeMonth_def)
  next
    case c9
    then have m: "MonthFromTime t = 9" by (simp add: M)
    have dt: "DateFromTime t = d - 272 - l" by (simp add: D m)
    show ?thesis
      unfolding m dt d_def [symmetric] l_def [symmetric]
      using c9 r by (auto simp add: DaysInMonth_def daysBeforeMonth_def)
  next
    case c10
    then have m: "MonthFromTime t = 10" by (simp add: M)
    have dt: "DateFromTime t = d - 303 - l" by (simp add: D m)
    show ?thesis
      unfolding m dt d_def [symmetric] l_def [symmetric]
      using c10 r by (auto simp add: DaysInMonth_def daysBeforeMonth_def)
  next
    case c11
    then have m: "MonthFromTime t = 11" by (simp add: M)
    have dt: "DateFromTime t = d - 333 - l" by (simp add: D m)
    show ?thesis
      unfolding m dt d_def [symmetric] l_def [symmetric]
      using c11 r by (auto simp add: DaysInMonth_def daysBeforeMonth_def)
  qed
qed

text \<open>Decimal fields of fixed width are read back as the numbers they were written from.\<close>

lemma unat_digit: "d < 10 \<Longrightarrow> unat (digit d) = 48 + d"
  unfolding digit_def unat_of_nat by simp

lemma digitValue_digit: "d < 10 \<Longrightarrow> digitValue (digit d) = Some d"
  by (simp add: digitValue_def unat_digit)

lemma digitsValue_append:
  "digitsValue (xs @ ys) acc =
     (case digitsValue xs acc of None \<Rightarrow> None | Some v \<Rightarrow> digitsValue ys v)"
  by (induction xs arbitrary: acc) (simp_all split: option.splits)

lemma length_pad [simp]: "length (pad k n) = k"
  by (induction k arbitrary: n) simp_all

lemma digitsValue_pad: "digitsValue (pad k n) acc = Some (acc * 10 ^ k + n mod 10 ^ k)"
proof (induction k arbitrary: n acc)
  case 0
  then show ?case by simp
next
  case (Suc k)
  have "(n div 10) mod 10 ^ k * 10 + n mod 10 = n mod (10 * 10 ^ k)"
    by (simp add: mod_mult2_eq mult.commute)
  then show ?case
    by (simp add: digitsValue_append Suc digitValue_digit algebra_simps)
qed

lemma takeDigits_pad:
  "n < 10 ^ k \<Longrightarrow> takeDigits k (pad k n @ r) = Some (n, r)"
  by (simp add: takeDigits_def digitsValue_pad)

lemma expect_Cons [simp]: "expect c (c # r) = Some r"
  by (simp add: expect_def)

lemma pad_head: "\<exists>d cs. d < 10 \<and> pad (Suc k) n = digit d # cs"
proof (induction k arbitrary: n)
  case 0
  have "n mod 10 < 10 \<and> pad (Suc 0) n = digit (n mod 10) # []" by simp
  then show ?case by blast
next
  case (Suc k)
  from Suc [of "n div 10"] obtain d cs where "d < 10" "pad (Suc k) (n div 10) = digit d # cs"
    by blast
  then have "d < 10 \<and> pad (Suc (Suc k)) n = digit d # (cs @ [digit (n mod 10)])"
    by simp
  then show ?case by blast
qed

lemma digit_not_sign: "d < 10 \<Longrightarrow> digit d \<noteq> 0x2B \<and> digit d \<noteq> 0x2D"
proof -
  assume "d < 10"
  then have u: "unat (digit d) = 48 + d" by (rule unat_digit)
  have "unat (digit d) \<noteq> unat (0x2B :: jschar)" "unat (digit d) \<noteq> unat (0x2D :: jschar)"
    unfolding u by simp_all
  then show ?thesis by auto
qed

lemma parseYear_unsigned:
  assumes "n < 10 ^ 4"
  shows "parseYear (pad 4 n @ r) = Some (int n, r)"
proof -
  have four: "(4::nat) = Suc 3" by simp
  have "\<exists>d cs. d < 10 \<and> pad (Suc 3) n = digit d # cs" by (rule pad_head)
  then obtain d cs where d: "d < 10" and p: "pad 4 n = digit d # cs"
    unfolding four [symmetric] by blast
  have t: "takeDigits 4 (digit d # cs @ r) = Some (n, r)"
    using takeDigits_pad [OF assms, of r] p by simp
  show ?thesis
    using digit_not_sign [OF d] t by (simp add: parseYear_def p)
qed

lemma parseYear_yearString:
  assumes "- 999999 \<le> y" "y \<le> 999999"
  shows "parseYear (yearString y @ r) = Some (y, r)"
proof -
  consider "0 \<le> y" "y \<le> 9999" | "y < 0" | "9999 < y" by linarith
  then show ?thesis
  proof cases
    case 1
    then have "nat y < 10 ^ 4" by simp
    from parseYear_unsigned [OF this, of r] 1 show ?thesis
      by (simp add: yearString_def)
  next
    case 2
    then have "nat (- y) < 10 ^ 6" using assms by simp
    from takeDigits_pad [OF this, of r] 2 show ?thesis
      by (simp add: yearString_def parseYear_def)
  next
    case 3
    then have "nat y < 10 ^ 6" using assms by simp
    from takeDigits_pad [OF this, of r] 3 show ?thesis
      by (simp add: yearString_def parseYear_def)
  qed
qed

text \<open>Hours, minutes, seconds and milliseconds are in range and add up to the time within the day.\<close>

lemma mod_range:
  fixes a k :: int
  assumes "0 < k"
  shows "0 \<le> a mod k" "a mod k \<le> k - 1"
  using assms pos_mod_bound [of k a] by simp_all

lemma time_ranges:
  "0 \<le> HourFromTime t \<and> HourFromTime t \<le> 23 \<and> 0 \<le> MinFromTime t \<and> MinFromTime t \<le> 59
   \<and> 0 \<le> SecFromTime t \<and> SecFromTime t \<le> 59 \<and> 0 \<le> msFromTime t \<and> msFromTime t \<le> 999"
proof -
  have h: "HourFromTime t \<le> 24 - 1" unfolding HourFromTime_def by (rule mod_range) simp
  have m: "MinFromTime t \<le> 60 - 1" unfolding MinFromTime_def by (rule mod_range) simp
  have s: "SecFromTime t \<le> 60 - 1" unfolding SecFromTime_def by (rule mod_range) simp
  have ms: "msFromTime t \<le> 1000 - 1" unfolding msFromTime_def by (rule mod_range) simp
  have "0 \<le> HourFromTime t" "0 \<le> MinFromTime t" "0 \<le> SecFromTime t" "0 \<le> msFromTime t"
    unfolding HourFromTime_def MinFromTime_def SecFromTime_def msFromTime_def
    by (rule mod_range; simp)+
  with h m s ms show ?thesis by simp
qed

lemma time_sum:
  fixes T h m s ms r1 r2 :: int
  assumes "r1 = 1000 * s + ms" "r2 = 60000 * m + r1" "T = 3600000 * h + r2"
  shows "h * 3600000 + m * 60000 + s * 1000 + ms = T"
  using assms by linarith

lemma time_fields:
  "MakeTime (HourFromTime t) (MinFromTime t) (SecFromTime t) (msFromTime t) = TimeWithinDay t"
proof -
  have "t mod (1000 * 60) = 1000 * (t div 1000 mod 60) + t mod 1000"
    by (rule zmod_zmult2_eq) simp
  then have a: "t mod 60000 = 1000 * (t div 1000 mod 60) + t mod 1000"
    by (simp only: mult_numeral_left_semiring_numeral numeral_times_numeral semiring_norm)
  have "t mod (60000 * 60) = 60000 * (t div 60000 mod 60) + t mod 60000"
    by (rule zmod_zmult2_eq) simp
  then have b: "t mod 3600000 = 60000 * (t div 60000 mod 60) + t mod 60000"
    by (simp only: mult_numeral_left_semiring_numeral numeral_times_numeral semiring_norm)
  have "t mod (3600000 * 24) = 3600000 * (t div 3600000 mod 24) + t mod 3600000"
    by (rule zmod_zmult2_eq) simp
  then have c: "t mod 86400000 = 3600000 * (t div 3600000 mod 24) + t mod 3600000"
    by (simp only: mult_numeral_left_semiring_numeral numeral_times_numeral semiring_norm)
  show ?thesis
    unfolding MakeTime_def HourFromTime_def MinFromTime_def SecFromTime_def msFromTime_def
      TimeWithinDay_def msPerDay_def
    by (rule time_sum [OF a b c])
qed

text \<open>The parser reads the string of every time value of the range back as that time value.\<close>

lemma Day_range:
  assumes "\<bar>t\<bar> \<le> maxTime"
  shows "- 100000000 \<le> Day t" "Day t \<le> 100000000"
proof -
  define D where "D = t div 86400000"
  have q: "86400000 * D \<le> t" "t < 86400000 * D + 86400000"
    unfolding D_def by (rule div_bounds; simp)+
  have t: "- 8640000000000000 \<le> t" "t \<le> 8640000000000000"
    using assms by (simp_all add: maxTime_def abs_le_iff)
  have "- 100000000 \<le> D" "D \<le> 100000000"
    using q t by linarith+
  then show "- 100000000 \<le> Day t" "Day t \<le> 100000000"
    by (simp_all add: Day_def msPerDay_def D_def)
qed

lemma Day_TimeWithinDay: "MakeDate (Day t) (TimeWithinDay t) = t"
  by (simp add: MakeDate_def Day_def TimeWithinDay_def)

lemma MakeDay_fields: "MakeDay (YearFromTime t) (MonthFromTime t) (DateFromTime t) = Day t"
  using month_fields [of t]
  by (simp add: MakeDay_def InLeapYear_def DayWithinYear_def)

lemma DaysInMonth_le: "l = 0 \<or> l = 1 \<Longrightarrow> DaysInMonth m l \<le> 31"
  by (auto simp add: DaysInMonth_def)

lemma parse_isoString:
  assumes "\<bar>t\<bar> \<le> maxTime"
  shows "parseDateTimeString (isoString t) = Some t"
proof -
  define y where "y = YearFromTime t"
  define mo where "mo = nat (MonthFromTime t + 1)"
  define d where "d = nat (DateFromTime t)"
  define h where "h = nat (HourFromTime t)"
  define mi where "mi = nat (MinFromTime t)"
  define se where "se = nat (SecFromTime t)"
  define ms where "ms = nat (msFromTime t)"
  have yr: "- 999999 \<le> y" "y \<le> 999999"
    using YearFromDay_range [OF Day_range [OF assms]] by (simp_all add: y_def YearFromTime_def)
  note mf = month_fields [of t]
  note tr = time_ranges [of t]
  have date: "DateFromTime t \<le> 31"
    using mf DaysInMonth_le [OF leapDays_cases [of "YearFromTime t"], of "MonthFromTime t"]
    by (simp add: InLeapYear_def)
  have small: "mo < 10 ^ 2" "d < 10 ^ 2" "h < 10 ^ 2" "mi < 10 ^ 2" "se < 10 ^ 2" "ms < 10 ^ 3"
    using mf tr date by (auto simp add: mo_def d_def h_def mi_def se_def ms_def)
  have conv: "int mo - 1 = MonthFromTime t" "int d = DateFromTime t" "int h = HourFromTime t"
    "int mi = MinFromTime t" "int se = SecFromTime t" "int ms = msFromTime t"
    using mf tr by (auto simp add: mo_def d_def h_def mi_def se_def ms_def)
  have legal: "legalFields y mo d h mi se"
    unfolding legalFields_def conv
    using mf tr conv by (simp add: y_def InLeapYear_def)
  have str: "isoString t =
      yearString y @ 0x2D # pad 2 mo @ 0x2D # pad 2 d @ 0x54 # pad 2 h @ 0x3A # pad 2 mi @
      0x3A # pad 2 se @ 0x2E # pad 3 ms @ [0x5A]"
    by (simp add: isoString_def y_def mo_def d_def h_def mi_def se_def ms_def)
  have val: "MakeDate (MakeDay y (int mo - 1) (int d)) (MakeTime (int h) (int mi) (int se) (int ms)) = t"
    unfolding conv y_def by (simp add: MakeDay_fields time_fields Day_TimeWithinDay)
  show ?thesis
    unfolding str parseDateTimeString_def
    by (simp add: parseYear_yearString [OF yr] takeDigits_pad [OF small(1)]
        takeDigits_pad [OF small(2)] takeDigits_pad [OF small(3)] takeDigits_pad [OF small(4)]
        takeDigits_pad [OF small(5)] takeDigits_pad [OF small(6)] legal val)
qed


section \<open>Serialization round trip\<close>

lemma new_User_accepts:
  "new_User i e f l c m a = Inr u \<Longrightarrow>
   test emailRegex e \<and> 2 \<le> length (trim f) \<and> 2 \<le> length (trim l)"
  by (cases "test emailRegex e"; cases "length (trim f) < 2"; cases "length (trim l) < 2")
    (simp_all add: new_User_def validateEmail_def validateName_short validateName_long)

lemma Date_parse_isoString:
  "\<bar>t\<bar> \<le> maxTime \<Longrightarrow> Date_parse other (isoString t) = TimeValue t"
  by (simp add: Date_parse_def parse_isoString TimeClip_def)

text \<open>
  C4, as stated: every user that satisfies the construction invariants would come back
  from \<open>fromJSON (toJSON u)\<close>. The constructor does not look at the dates; a user with
  an invalid creation date is constructed, and \<open>toJSON\<close> throws a \<open>RangeError\<close> on it.
\<close>

theorem toJSON_invalid_date_counterexample:
  "new_User (js ''1'') (js ''test@example.com'') (js ''John'') (js ''Doe'') InvalidDate
       (TimeValue 1673740800000) (Some True) = Inr undatedUser
   \<and> toJSON undatedUser = Inl (RangeError (js ''Invalid time value''))"
  using email_example trim_John trim_Doe
  by (simp add: new_User_def validateEmail_def validateName_long undatedUser_def toJSON_def
      toISOString_def)

text \<open>
  C4, amended. For every user that the constructor accepts and whose two dates are
  valid (a time value of at most 8.64e15 milliseconds in absolute value), \<open>toJSON\<close>
  succeeds, with the timestamps in the format \<^verbatim>\<open>YYYY-MM-DDTHH:mm:ss.sssZ\<close>, and
  \<open>fromJSON\<close> of the result is the same user: equal id, email, names and activity,
  and the same time values to the millisecond.
\<close>

theorem fromJSON_toJSON:
  assumes "new_User (userId u) (email u) (firstName u) (lastName u) (createdAt u) (updatedAt u)
      (Some (isActive u)) = Inr u"
    and "validDate (createdAt u)" and "validDate (updatedAt u)"
  shows "\<exists>j. toJSON u = Inr j \<and> fromJSON other j = Inr u"
proof -
  from assms(2) obtain tc where tc: "createdAt u = TimeValue tc" "\<bar>tc\<bar> \<le> maxTime"
    by (auto simp add: validDate_def split: Date.splits)
  from assms(3) obtain tm where tm: "updatedAt u = TimeValue tm" "\<bar>tm\<bar> \<le> maxTime"
    by (auto simp add: validDate_def split: Date.splits)
  define j where "j =
     \<lparr> json_id = userId u, json_email = email u, json_firstName = firstName u,
       json_lastName = lastName u, json_fullName = Some (fullName u),
       json_createdAt = isoString tc, json_updatedAt = isoString tm,
       json_isActive = Some (isActive u) \<rparr>"
  have w: "toJSON u = Inr j"
    by (simp add: toJSON_def toISOString_def tc tm j_def)
  have "fromJSON other j =
      new_User (userId u) (email u) (firstName u) (lastName u) (TimeValue tc) (TimeValue tm)
        (Some (isActive u))"
    by (simp add: fromJSON_def j_def Date_parse_isoString tc tm)
  also have "\<dots> = Inr u"
    using assms(1) by (simp add: tc tm)
  finally have "fromJSON other j = Inr u" .
  with w show ?thesis by blast
qed

lemma johnDoe_constructed:
  "new_User (userId johnDoe) (email johnDoe) (firstName johnDoe) (lastName johnDoe)
     (createdAt johnDoe) (updatedAt johnDoe) (Some (isActive johnDoe)) = Inr johnDoe"
proof -
  have "test emailRegex (js ''john.doe@example.com'')"
    by (simp add: char_class_defs)
  then show ?thesis
    using trim_John trim_Doe
    by (simp add: johnDoe_def new_User_def validateEmail_def validateName_long)
qed

theorem fromJSON_toJSON_witness:
  "toJSON johnDoe = Inr johnDoeJSON
   \<and> fromJSON (\<lambda>s. InvalidDate) johnDoeJSON = Inr johnDoe
   \<and> validDate (createdAt johnDoe) \<and> validDate (updatedAt johnDoe)"
proof -
  have v: "validDate (createdAt johnDoe)" "validDate (updatedAt johnDoe)"
    by (simp_all add: johnDoe_def validDate_def maxTime_def)
  from fromJSON_toJSON [OF johnDoe_constructed v, of "\<lambda>s. InvalidDate"] toJSON_johnDoe v
  show ?thesis by simp
qed

end
